theory Spec2Isabelle
  imports Main "HOL-Library.Char_ord" "HOL-Library.List_Lexorder"
    "HOL-Library.Product_Lexorder" "HOL-Library.Sublist"
begin

section \<open>MediConnect backend: values, rows and the store\<close>

text \<open>
  The backend (\<^verbatim>\<open>src/server.js\<close>) is a set of Express handlers over a PostgreSQL pool.
  A JavaScript value that reaches a query parameter or comes back in a result row is a
  \<open>val\<close>; \<open>undefined\<close> is the absence of a value (\<open>None\<close>), which the driver sends as
  SQL \<open>NULL\<close>. A row object is a dictionary from column names to values, a table is the
  list of its rows together with what the schema (which is not part of the sources)
  contributes to an \<^verbatim>\<open>INSERT\<close>: the next value of the key sequence and the column
  defaults.

  A statement whose text is fixed is modelled by its result on the store. A parameter is
  compared with a column as a value of the column's type (the conversion of a path
  parameter or of a JSON value by the driver is not modelled), and a failure of the
  database itself (a lost connection, a constraint of the schema) is not modelled
  either. A handler is a function from the store and the request to the response and
  the store after it; the body of its \<^verbatim>\<open>try\<close> block returns \<open>Inl\<close> for a thrown exception,
  which the \<^verbatim>\<open>catch\<close> turns into the response 500.
\<close>

datatype val = VNull | VBool bool | VInt int | VText string

type_synonym row = "string \<rightharpoonup> val"

record table =
  rows :: "row list"
  serial :: int
  defaults :: row

record store =
  users :: table
  hospitals :: table
  pharmacies :: table
  doctors :: table
  medicines :: table

text \<open>A column of a row; a column the row does not have reads as \<open>NULL\<close>.\<close>

definition cell :: "row \<Rightarrow> string \<Rightarrow> val" where
  "cell r c = (case r c of None \<Rightarrow> VNull | Some v \<Rightarrow> v)"

text \<open>A JavaScript value bound as a query parameter: \<open>undefined\<close> is bound as \<open>NULL\<close>.\<close>

definition param :: "val option \<Rightarrow> val" where
  "param v = (case v of None \<Rightarrow> VNull | Some x \<Rightarrow> x)"

text \<open>SQL \<^verbatim>\<open>a = b\<close> in a \<^verbatim>\<open>WHERE\<close> clause: true only when both sides are not \<open>NULL\<close> and equal.\<close>

definition sql_eq :: "val \<Rightarrow> val \<Rightarrow> bool" where
  "sql_eq a b = (a \<noteq> VNull \<and> b \<noteq> VNull \<and> a = b)"

section \<open>JavaScript helpers\<close>

text \<open>\<^verbatim>\<open>s.split(c)\<close> for a one-character separator: never empty, \<open>''''.split(c) = ['''']\<close>.\<close>

fun js_split :: "char \<Rightarrow> string \<Rightarrow> string list" where
  "js_split c [] = [[]]"
| "js_split c (x # xs) =
     (if x = c then [] # js_split c xs
      else (case js_split c xs of [] \<Rightarrow> [[x]] | w # ws \<Rightarrow> (x # w) # ws))"

text \<open>\<^verbatim>\<open>xs[i]\<close>: \<open>undefined\<close> out of range.\<close>

fun js_index :: "'a list \<Rightarrow> nat \<Rightarrow> 'a option" where
  "js_index [] i = None"
| "js_index (x # xs) 0 = Some x"
| "js_index (x # xs) (Suc i) = js_index xs i"

text \<open>Truthiness of a value that is a string or \<open>undefined\<close>: only a non-empty string is truthy.\<close>

definition js_truthy :: "string option \<Rightarrow> bool" where
  "js_truthy v = (case v of None \<Rightarrow> False | Some s \<Rightarrow> s \<noteq> [])"

text \<open>A number inside a template literal: its decimal digits.\<close>

definition digit_char :: "nat \<Rightarrow> char" where
  "digit_char d = ''0123456789'' ! d"

function string_of_nat :: "nat \<Rightarrow> string" where
  "string_of_nat n =
     (if n < 10 then [digit_char n]
      else string_of_nat (n div 10) @ [digit_char (n mod 10)])"
  by pat_completeness auto
termination
  by (relation "measure (\<lambda>n. n)") auto

declare string_of_nat.simps [simp del]

text \<open>\<^verbatim>\<open>xs.join(sep)\<close>.\<close>

fun js_join :: "string \<Rightarrow> string list \<Rightarrow> string" where
  "js_join sep [] = []"
| "js_join sep [x] = x"
| "js_join sep (x # y # ys) = x @ sep @ js_join sep (y # ys)"

section \<open>PostgreSQL: pattern matching and ordering\<close>

text \<open>
  \<^verbatim>\<open>string LIKE pattern\<close>: \<open>%\<close> matches any sequence of characters, \<open>_\<close> any single
  character, a backslash makes the next pattern character literal; any other pattern
  character matches itself. A pattern that ends in a lone backslash is an error in
  PostgreSQL; it does not arise here, since every pattern the handlers build ends in
  \<open>%\<close>.
\<close>

fun like_match :: "string \<Rightarrow> string \<Rightarrow> bool" where
  "like_match [] s = (s = [])"
| "like_match (p # ps) s =
     (if p = CHR ''%'' then
        (like_match ps s \<or> (case s of [] \<Rightarrow> False | c # s' \<Rightarrow> like_match (p # ps) s'))
      else if p = CHR ''_'' then
        (case s of [] \<Rightarrow> False | c # s' \<Rightarrow> like_match ps s')
      else if p = CHR 0x5C then
        (case ps of
           [] \<Rightarrow> False
         | q # qs \<Rightarrow> (case s of [] \<Rightarrow> False | c # s' \<Rightarrow> c = q \<and> like_match qs s'))
      else (case s of [] \<Rightarrow> False | c # s' \<Rightarrow> c = p \<and> like_match ps s'))"

text \<open>
  \<^verbatim>\<open>ILIKE\<close> folds the case of both sides and matches as \<^verbatim>\<open>LIKE\<close>. The folding is that
  of the database's locale; the model folds the ASCII letters.
\<close>

definition lower_char :: "char \<Rightarrow> char" where
  "lower_char c =
     (case map_of (zip ''ABCDEFGHIJKLMNOPQRSTUVWXYZ'' ''abcdefghijklmnopqrstuvwxyz'') c of
        None \<Rightarrow> c
      | Some l \<Rightarrow> l)"

definition lower :: "string \<Rightarrow> string" where
  "lower s = map lower_char s"

definition ilike :: "string \<Rightarrow> string \<Rightarrow> bool" where
  "ilike s pat = like_match (lower pat) (lower s)"

text \<open>
  \<^verbatim>\<open>column ILIKE $n\<close> as a \<^verbatim>\<open>WHERE\<close> condition on a text column: \<open>NULL\<close> is not a match.
\<close>

definition sql_ilike :: "val \<Rightarrow> val \<Rightarrow> bool" where
  "sql_ilike v pat =
     (case (v, pat) of (VText s, VText p) \<Rightarrow> ilike s p | _ \<Rightarrow> False)"

text \<open>
  \<^verbatim>\<open>ORDER BY column\<close> (ascending) on a text column: \<open>NULL\<close> sorts last; texts are
  compared character by character (the collation of the database is not part of the
  sources). Rows with equal keys keep the order of the table.
\<close>

definition order_key :: "val \<Rightarrow> bool \<times> string" where
  "order_key v = (case v of VText s \<Rightarrow> (False, s) | _ \<Rightarrow> (True, []))"

section \<open>Requests, responses and the libraries the handlers call\<close>

text \<open>
  The payload of an identity token, as \<^verbatim>\<open>generateToken\<close> signs it: \<^verbatim>\<open>{ id, userType }\<close>.
\<close>

record decoded =
  tok_id :: val
  userType :: string

text \<open>
  \<^verbatim>\<open>jsonwebtoken\<close> and \<^verbatim>\<open>bcrypt\<close> are libraries, the signing secret, the clock and the
  salt are process state: they are parameters of the model. \<open>jwt_verify\<close> is
  \<^verbatim>\<open>jwt.verify(token, process.env.JWT_SECRET)\<close> at the time of the request, \<open>None\<close> when
  it throws (bad signature, malformed token, expired token or any other cause).
  \<open>bcrypt_hash\<close> is \<^verbatim>\<open>bcrypt.hash(password, await bcrypt.genSalt(10))\<close>.
\<close>

record env =
  jwt_sign :: "decoded \<Rightarrow> string"
  jwt_verify :: "string \<Rightarrow> decoded option"
  bcrypt_hash :: "string \<Rightarrow> string"
  bcrypt_compare :: "string \<Rightarrow> string \<Rightarrow> bool"

text \<open>
  An Express request, as far as the handlers read it: the \<^verbatim>\<open>Authorization\<close> header, the
  path parameters, the query string, the JSON body (an object, its keys in the order
  \<^verbatim>\<open>Object.keys\<close> lists them) and \<^verbatim>\<open>req.user\<close>, which the access guard sets.
\<close>

record request =
  authorization :: "string option"
  params :: "string \<rightharpoonup> val"
  query :: "string \<rightharpoonup> string"
  body :: "(string \<times> val) list"
  user :: "decoded option"

text \<open>The \<^verbatim>\<open>data\<close> member of a response envelope.\<close>

datatype payload =
  DataRows "row list"
  | DataRow "row option"
  | DataAuth string row string

record response =
  status :: nat
  success :: bool
  message :: "string option"
  count :: "nat option"
  data :: "payload option"

text \<open>\<^verbatim>\<open>res.status(s).json({ success: false, message: m })\<close>.\<close>

definition failure :: "nat \<Rightarrow> string \<Rightarrow> response" where
  "failure s m = \<lparr>status = s, success = False, message = Some m, count = None, data = None\<rparr>"

text \<open>What a \<^verbatim>\<open>try\<close> block can throw.\<close>

datatype error = JwtError | TypeError | BcryptError | SqlError

text \<open>
  \<^verbatim>\<open>catch (error) { res.status(500).json({ success: false, message: 'Server error' }) }\<close>,
  the boundary of every controller.
\<close>

definition server_error :: response where
  "server_error = failure 500 ''Server error''"

section \<open>The access guard\<close>

text \<open>\<^verbatim>\<open>req.headers.authorization?.split(' ')[1]\<close>.\<close>

definition header_token :: "request \<Rightarrow> string option" where
  "header_token req =
     (case authorization req of
        None \<Rightarrow> None
      | Some h \<Rightarrow> js_index (js_split CHR '' '' h) 1)"

text \<open>
  The body of the \<^verbatim>\<open>try\<close> block of \<^verbatim>\<open>authMiddleware(userType)\<close>: \<open>Inl\<close> is a thrown
  exception, \<open>Inr (Inl r)\<close> a response sent, \<open>Inr (Inr req')\<close> the call of \<^verbatim>\<open>next()\<close> on
  the request with \<^verbatim>\<open>req.user = decoded\<close>.
\<close>

definition auth_try :: "string option \<Rightarrow> env \<Rightarrow> request \<Rightarrow> error + (response + request)" where
  "auth_try userType' e req =
     (let token = header_token req in
      if \<not> js_truthy token then
        Inr (Inl (failure 401 ''Access denied. No token provided.''))
      else
        (case jwt_verify e (the token) of
           None \<Rightarrow> Inl JwtError
         | Some dec \<Rightarrow>
             if js_truthy userType' \<and> Some (userType dec) \<noteq> userType' then
               Inr (Inl (failure 403 ''Access denied. Insufficient permissions.''))
             else Inr (Inr (req\<lparr>user := Some dec\<rparr>))))"

definition authMiddleware :: "string option \<Rightarrow> env \<Rightarrow> request \<Rightarrow> response + request" where
  "authMiddleware userType' e req =
     (case auth_try userType' e req of
        Inl err \<Rightarrow> Inl (failure 401 ''Invalid token.'')
      | Inr r \<Rightarrow> r)"

section \<open>Credential store: register and login\<close>

text \<open>\<^verbatim>\<open>generateToken(id, userType)\<close>.\<close>

definition generateToken :: "env \<Rightarrow> val \<Rightarrow> string \<Rightarrow> string" where
  "generateToken e i t = jwt_sign e \<lparr>tok_id = i, userType = t\<rparr>"

text \<open>\<^verbatim>\<open>SELECT * FROM <table> WHERE email = $1\<close>.\<close>

definition select_by_email :: "table \<Rightarrow> val \<Rightarrow> row list" where
  "select_by_email t email = filter (\<lambda>r. sql_eq (cell r ''email'') email) (rows t)"

text \<open>
  \<^verbatim>\<open>INSERT INTO <table> (cols) VALUES ($1, ..) RETURNING ..\<close>: the new row has the
  defaults of the table, the next key and the listed columns; the table after it and
  the inserted row.
\<close>

definition insert_row :: "table \<Rightarrow> string \<Rightarrow> (string \<times> val) list \<Rightarrow> table \<times> row" where
  "insert_row t key_col cols =
     (let r = (defaults t)(key_col \<mapsto> VInt (serial t)) ++ map_of cols
      in (t\<lparr>rows := rows t @ [r], serial := serial t + 1\<rparr>, r))"

text \<open>
  The three register handlers differ in the table, the columns and the messages only.
  \<open>register_try\<close> is the body of their \<^verbatim>\<open>try\<close> block: \<open>key_col\<close> and \<open>name_col\<close> are
  the key and name columns, \<open>extra\<close> the profile columns after \<^verbatim>\<open>password_hash\<close>, \<open>role\<close>
  the token's \<^verbatim>\<open>userType\<close> (also the key of the record in the response), \<open>exists_msg\<close>
  and \<open>ok_msg\<close> the two messages. \<^verbatim>\<open>bcrypt.hash\<close> throws unless the password is a string.
\<close>

definition register_try ::
  "string \<Rightarrow> string \<Rightarrow> string list \<Rightarrow> string \<Rightarrow> string \<Rightarrow> string \<Rightarrow>
     env \<Rightarrow> table \<Rightarrow> request \<Rightarrow> error + (response \<times> table)" where
  "register_try key_col name_col extra role exists_msg ok_msg e t req =
     (let field = (\<lambda>c. param (map_of (body req) c));
          email = field ''email'';
          found = select_by_email t email
      in if length found > 0 then Inr (failure 400 exists_msg, t)
         else
           (case map_of (body req) ''password'' of
              Some (VText password) \<Rightarrow>
                (let password_hash = bcrypt_hash e password;
                     (t', r) = insert_row t key_col
                        ([(name_col, field name_col), (''email'', email),
                          (''password_hash'', VText password_hash)]
                         @ map (\<lambda>c. (c, field c)) extra);
                     returned = r |` {key_col, name_col, ''email''};
                     token = generateToken e (cell returned key_col) role
                 in Inr (\<lparr>status = 201, success = True, message = Some ok_msg,
                          count = None, data = Some (DataAuth role returned token)\<rparr>, t'))
            | _ \<Rightarrow> Inl BcryptError))"

definition registerUser :: "env \<Rightarrow> store \<Rightarrow> request \<Rightarrow> response \<times> store" where
  "registerUser e st req =
     (case register_try ''user_id'' ''full_name''
             [''phone'', ''address'', ''city'', ''state'', ''pincode'', ''date_of_birth'', ''gender'']
             ''user'' ''User already exists'' ''User registered successfully''
             e (users st) req of
        Inl err \<Rightarrow> (server_error, st)
      | Inr (res, t') \<Rightarrow> (res, st\<lparr>users := t'\<rparr>))"

definition hospitalRegister :: "env \<Rightarrow> store \<Rightarrow> request \<Rightarrow> response \<times> store" where
  "hospitalRegister e st req =
     (case register_try ''hospital_id'' ''hospital_name''
             [''phone'', ''address'', ''city'', ''state'', ''pincode'', ''registration_number'',
              ''hospital_type'']
             ''hospital'' ''Hospital already exists'' ''Hospital registered successfully''
             e (hospitals st) req of
        Inl err \<Rightarrow> (server_error, st)
      | Inr (res, t') \<Rightarrow> (res, st\<lparr>hospitals := t'\<rparr>))"

definition pharmacyRegister :: "env \<Rightarrow> store \<Rightarrow> request \<Rightarrow> response \<times> store" where
  "pharmacyRegister e st req =
     (case register_try ''pharmacy_id'' ''pharmacy_name''
             [''phone'', ''address'', ''city'', ''state'', ''pincode'', ''license_number'',
              ''operating_hours'']
             ''pharmacy'' ''Pharmacy already exists'' ''Pharmacy registered successfully''
             e (pharmacies st) req of
        Inl err \<Rightarrow> (server_error, st)
      | Inr (res, t') \<Rightarrow> (res, st\<lparr>pharmacies := t'\<rparr>))"

text \<open>
  The body of the \<^verbatim>\<open>try\<close> block of the three login handlers. \<^verbatim>\<open>bcrypt.compare\<close> throws
  unless both the password and the stored hash are strings. A login reads the store
  only.
\<close>

definition login_try ::
  "string \<Rightarrow> string \<Rightarrow> string \<Rightarrow> env \<Rightarrow> table \<Rightarrow> request \<Rightarrow> error + response" where
  "login_try key_col name_col role e t req =
     (let email = param (map_of (body req) ''email'');
          password = map_of (body req) ''password''
      in case select_by_email t email of
           [] \<Rightarrow> Inr (failure 401 ''Invalid credentials'')
         | u # rest \<Rightarrow>
             (case (password, cell u ''password_hash'') of
                (Some (VText pw), VText h) \<Rightarrow>
                  if \<not> bcrypt_compare e pw h then Inr (failure 401 ''Invalid credentials'')
                  else
                    (let token = generateToken e (cell u key_col) role
                     in Inr \<lparr>status = 200, success = True, message = Some ''Login successful'',
                             count = None,
                             data = Some (DataAuth role
                               [key_col \<mapsto> cell u key_col, name_col \<mapsto> cell u name_col,
                                ''email'' \<mapsto> cell u ''email''] token)\<rparr>)
              | _ \<Rightarrow> Inl BcryptError))"

definition loginUser :: "env \<Rightarrow> store \<Rightarrow> request \<Rightarrow> response" where
  "loginUser e st req =
     (case login_try ''user_id'' ''full_name'' ''user'' e (users st) req of
        Inl err \<Rightarrow> server_error | Inr res \<Rightarrow> res)"

definition hospitalLogin :: "env \<Rightarrow> store \<Rightarrow> request \<Rightarrow> response" where
  "hospitalLogin e st req =
     (case login_try ''hospital_id'' ''hospital_name'' ''hospital'' e (hospitals st) req of
        Inl err \<Rightarrow> server_error | Inr res \<Rightarrow> res)"

definition pharmacyLogin :: "env \<Rightarrow> store \<Rightarrow> request \<Rightarrow> response" where
  "pharmacyLogin e st req =
     (case login_try ''pharmacy_id'' ''pharmacy_name'' ''pharmacy'' e (pharmacies st) req of
        Inl err \<Rightarrow> server_error | Inr res \<Rightarrow> res)"

section \<open>Search\<close>

text \<open>
  The search handlers build the text of a \<^verbatim>\<open>SELECT\<close> and its parameter list. The model
  keeps the conditions they append to the \<^verbatim>\<open>WHERE\<close> clause as terms:
  \<open>ILike a c n\<close> is \<^verbatim>\<open>a.c ILIKE $n\<close>, \<open>Or x y\<close> is \<^verbatim>\<open>(x OR y)\<close>; the appended conditions
  are joined by \<^verbatim>\<open>AND\<close>. \<open>$n\<close> is the \<open>n\<close>-th parameter, counted from 1.
\<close>

datatype cond = ILike string string nat | Or cond cond

fun eval_cond :: "(string \<Rightarrow> row) \<Rightarrow> val list \<Rightarrow> cond \<Rightarrow> bool" where
  "eval_cond src ps (ILike a c n) =
     (case n of
        0 \<Rightarrow> False
      | Suc k \<Rightarrow> (case js_index ps k of None \<Rightarrow> False | Some p \<Rightarrow> sql_ilike (cell (src a) c) p))"
| "eval_cond src ps (Or x y) = (eval_cond src ps x \<or> eval_cond src ps y)"

text \<open>The query under construction: conditions, \<^verbatim>\<open>params\<close> and \<^verbatim>\<open>paramCount\<close>.\<close>

type_synonym building = "cond list \<times> val list \<times> nat"

text \<open>
  \<^verbatim>\<open>query += ` AND a.c ILIKE $${paramCount}`; params.push(`%${v}%`); paramCount++\<close>
\<close>

definition and_ilike :: "string \<Rightarrow> string \<Rightarrow> string \<Rightarrow> building \<Rightarrow> building" where
  "and_ilike a c v q =
     (case q of (cs, ps, paramCount) \<Rightarrow>
        (cs @ [ILike a c paramCount], ps @ [VText (''%'' @ v @ ''%'')], paramCount + 1))"

text \<open>
  \<^verbatim>\<open>query += ` AND (a.c1 ILIKE $${paramCount} OR a.c2 ILIKE $${paramCount})`;\<close>
  \<^verbatim>\<open>params.push(`%${v}%`); paramCount++\<close>
\<close>

definition and_ilike2 :: "string \<Rightarrow> string \<Rightarrow> string \<Rightarrow> string \<Rightarrow> building \<Rightarrow> building" where
  "and_ilike2 a c1 c2 v q =
     (case q of (cs, ps, paramCount) \<Rightarrow>
        (cs @ [Or (ILike a c1 paramCount) (ILike a c2 paramCount)],
         ps @ [VText (''%'' @ v @ ''%'')], paramCount + 1))"

text \<open>\<^verbatim>\<open>if (v) { ... }\<close> on a query-string value.\<close>

definition when_present :: "string option \<Rightarrow> (string \<Rightarrow> building \<Rightarrow> building) \<Rightarrow> building \<Rightarrow> building" where
  "when_present v f q = (case v of None \<Rightarrow> q | Some s \<Rightarrow> if s \<noteq> [] then f s q else q)"

text \<open>
  \<^verbatim>\<open>FROM l a JOIN r b ON a.fk = b.fk WHERE <fixed> AND <conds> ORDER BY a.order_col\<close>:
  the pairs of the join that satisfy the fixed condition and every appended condition,
  in the order of \<open>order_col\<close>.
\<close>

definition select_join ::
  "string \<Rightarrow> table \<Rightarrow> string \<Rightarrow> table \<Rightarrow> string \<Rightarrow> (row \<Rightarrow> row \<Rightarrow> bool) \<Rightarrow>
     cond list \<Rightarrow> val list \<Rightarrow> string \<Rightarrow> (row \<times> row) list" where
  "select_join a l b r fk fixed cs ps order_col =
     sort_key (\<lambda>(x, y). order_key (cell x order_col))
       (filter (\<lambda>(x, y). fixed x y \<and> list_all (eval_cond (\<lambda>n. if n = a then x else y) ps) cs)
          (concat (map (\<lambda>x. map (\<lambda>y. (x, y))
                     (filter (\<lambda>y. sql_eq (cell x fk) (cell y fk)) (rows r))) (rows l))))"

text \<open>
  The select list \<^verbatim>\<open>a.*, b.name, b.address, b.city, b.phone as <phone_as>\<close>, as the
  row object the driver builds.
\<close>

definition select_list :: "string \<Rightarrow> string \<Rightarrow> row \<times> row \<Rightarrow> row" where
  "select_list name_col phone_as xy =
     (case xy of (x, y) \<Rightarrow>
        x(name_col \<mapsto> cell y name_col, ''address'' \<mapsto> cell y ''address'',
          ''city'' \<mapsto> cell y ''city'', phone_as \<mapsto> cell y ''phone''))"

text \<open>\<^verbatim>\<open>res.json({ success: true, count: result.rows.length, data: result.rows })\<close>.\<close>

definition rows_response :: "row list \<Rightarrow> response" where
  "rows_response rs =
     \<lparr>status = 200, success = True, message = None, count = Some (length rs),
      data = Some (DataRows rs)\<rparr>"

definition searchDoctors_query :: "request \<Rightarrow> building" where
  "searchDoctors_query req =
     (let specialization = query req ''specialization'';
          city = query req ''city'';
          hospital_name = query req ''hospital_name''
      in when_present hospital_name (and_ilike ''h'' ''hospital_name'')
           (when_present city (and_ilike ''h'' ''city'')
              (when_present specialization (and_ilike ''d'' ''specialization'')
                 ([], [], 1))))"

definition searchDoctors :: "store \<Rightarrow> request \<Rightarrow> response" where
  "searchDoctors st req =
     (case searchDoctors_query req of (cs, ps, paramCount) \<Rightarrow>
        rows_response
          (map (select_list ''hospital_name'' ''hospital_phone'')
             (select_join ''d'' (doctors st) ''h'' (hospitals st) ''hospital_id''
                (\<lambda>d h. cell d ''is_available'' = VBool True \<and> cell h ''is_active'' = VBool True)
                cs ps ''full_name'')))"

definition searchMedicines_query :: "request \<Rightarrow> building" where
  "searchMedicines_query req =
     (let medicine_name = query req ''medicine_name'';
          city = query req ''city'';
          category = query req ''category''
      in when_present category (and_ilike ''m'' ''category'')
           (when_present city (and_ilike ''p'' ''city'')
              (when_present medicine_name (and_ilike2 ''m'' ''medicine_name'' ''generic_name'')
                 ([], [], 1))))"

text \<open>\<^verbatim>\<open>m.stock_quantity > 0\<close>.\<close>

definition positive :: "val \<Rightarrow> bool" where
  "positive v = (case v of VInt n \<Rightarrow> n > 0 | _ \<Rightarrow> False)"

definition searchMedicines :: "store \<Rightarrow> request \<Rightarrow> response" where
  "searchMedicines st req =
     (case searchMedicines_query req of (cs, ps, paramCount) \<Rightarrow>
        rows_response
          (map (select_list ''pharmacy_name'' ''pharmacy_phone'')
             (select_join ''m'' (medicines st) ''p'' (pharmacies st) ''pharmacy_id''
                (\<lambda>m p. cell m ''is_available'' = VBool True \<and> positive (cell m ''stock_quantity'')
                   \<and> cell p ''is_active'' = VBool True)
                cs ps ''medicine_name'')))"

section \<open>Owned resources: update and delete\<close>

text \<open>
  The rows of a table with the given key that belong to the given owner:
  \<^verbatim>\<open>WHERE <key_col> = $1 AND <owner_col> = $2\<close>.
\<close>

definition owned :: "string \<Rightarrow> string \<Rightarrow> val \<Rightarrow> val \<Rightarrow> row \<Rightarrow> bool" where
  "owned key_col owner_col k ow r =
     (sql_eq (cell r key_col) k \<and> sql_eq (cell r owner_col) ow)"

text \<open>
  The dynamic update: \<^verbatim>\<open>fields\<close>, \<^verbatim>\<open>values\<close>, \<^verbatim>\<open>setClause\<close>, the statement text and its
  parameters, as \<^verbatim>\<open>updateDoctor\<close> and \<^verbatim>\<open>updateMedicine\<close> build them.
\<close>

definition setClause :: "(string \<times> val) list \<Rightarrow> string" where
  "setClause updates =
     (let fields = map fst updates
      in js_join '', ''
           (map (\<lambda>(field, index). field @ '' = $'' @ string_of_nat (index + 1))
              (zip fields [0..<length fields])))"

definition update_text :: "string \<Rightarrow> string \<Rightarrow> string \<Rightarrow> (string \<times> val) list \<Rightarrow> string" where
  "update_text tbl key_col owner_col updates =
     (let fields = map fst updates
      in ''UPDATE '' @ tbl @ '' SET '' @ setClause updates
         @ '' WHERE '' @ key_col @ '' = $'' @ string_of_nat (length fields + 1)
         @ '' AND '' @ owner_col @ '' = $'' @ string_of_nat (length fields + 2)
         @ '' RETURNING *'')"

definition update_params :: "(string \<times> val) list \<Rightarrow> val \<Rightarrow> val \<Rightarrow> val list" where
  "update_params updates k ow = (let values = map snd updates in values @ [k, ow])"

text \<open>
  How PostgreSQL executes the text of an \<^verbatim>\<open>UPDATE .. RETURNING *\<close> with its parameters on
  a table is a parameter of the model (\<open>engine\<close>: the rows returned and the table after
  it, or an error), with one exception: a statement whose \<^verbatim>\<open>SET\<close> keyword is followed
  by \<^verbatim>\<open>WHERE\<close> has no assignment, and the parser rejects it.
\<close>

type_synonym engine = "string \<Rightarrow> val list \<Rightarrow> table \<Rightarrow> error + (row list \<times> table)"

definition no_assignment :: "string \<Rightarrow> string \<Rightarrow> bool" where
  "no_assignment tbl text = prefix (''UPDATE '' @ tbl @ '' SET  WHERE '') text"

definition pool_query_update ::
  "engine \<Rightarrow> string \<Rightarrow> string \<Rightarrow> val list \<Rightarrow> table \<Rightarrow> error + (row list \<times> table)" where
  "pool_query_update eng tbl text ps t =
     (if no_assignment tbl text then Inl SqlError else eng text ps t)"

text \<open>
  The body of the \<^verbatim>\<open>try\<close> block of \<^verbatim>\<open>updateDoctor\<close> and \<^verbatim>\<open>updateMedicine\<close>.
  \<^verbatim>\<open>req.user.id\<close> throws when the guard has not set \<^verbatim>\<open>req.user\<close>.
\<close>

definition update_try ::
  "string \<Rightarrow> string \<Rightarrow> string \<Rightarrow> string \<Rightarrow> string \<Rightarrow>
     engine \<Rightarrow> table \<Rightarrow> request \<Rightarrow> error + (response \<times> table)" where
  "update_try tbl key_col owner_col missing_msg ok_msg eng t req =
     (case user req of
        None \<Rightarrow> Inl TypeError
      | Some u \<Rightarrow>
          (let k = param (params req key_col);
               ow = tok_id u;
               updates = body req;
               found = filter (owned key_col owner_col k ow) (rows t)
           in if length found = 0 then Inr (failure 404 missing_msg, t)
              else
                (case pool_query_update eng tbl
                        (update_text tbl key_col owner_col updates)
                        (update_params updates k ow) t of
                   Inl err \<Rightarrow> Inl err
                 | Inr (returned, t') \<Rightarrow>
                     Inr (\<lparr>status = 200, success = True, message = Some ok_msg,
                           count = None, data = Some (DataRow (js_index returned 0))\<rparr>, t'))))"

definition updateDoctor :: "engine \<Rightarrow> store \<Rightarrow> request \<Rightarrow> response \<times> store" where
  "updateDoctor eng st req =
     (case update_try ''doctors'' ''doctor_id'' ''hospital_id''
             ''Doctor not found'' ''Doctor updated successfully'' eng (doctors st) req of
        Inl err \<Rightarrow> (server_error, st)
      | Inr (res, t') \<Rightarrow> (res, st\<lparr>doctors := t'\<rparr>))"

definition updateMedicine :: "engine \<Rightarrow> store \<Rightarrow> request \<Rightarrow> response \<times> store" where
  "updateMedicine eng st req =
     (case update_try ''medicines'' ''medicine_id'' ''pharmacy_id''
             ''Medicine not found'' ''Medicine updated successfully'' eng (medicines st) req of
        Inl err \<Rightarrow> (server_error, st)
      | Inr (res, t') \<Rightarrow> (res, st\<lparr>medicines := t'\<rparr>))"

text \<open>
  \<^verbatim>\<open>DELETE FROM <table> WHERE <key_col> = $1 AND <owner_col> = $2 RETURNING *\<close>: the rows
  deleted and the table after it.
\<close>

definition delete_owned :: "string \<Rightarrow> string \<Rightarrow> val \<Rightarrow> val \<Rightarrow> table \<Rightarrow> row list \<times> table" where
  "delete_owned key_col owner_col k ow t =
     (filter (owned key_col owner_col k ow) (rows t),
      t\<lparr>rows := filter (\<lambda>r. \<not> owned key_col owner_col k ow r) (rows t)\<rparr>)"

definition delete_try ::
  "string \<Rightarrow> string \<Rightarrow> string \<Rightarrow> string \<Rightarrow> table \<Rightarrow> request \<Rightarrow> error + (response \<times> table)" where
  "delete_try key_col owner_col missing_msg ok_msg t req =
     (case user req of
        None \<Rightarrow> Inl TypeError
      | Some u \<Rightarrow>
          (case delete_owned key_col owner_col (param (params req key_col)) (tok_id u) t of
             (deleted, t') \<Rightarrow>
               if length deleted = 0 then Inr (failure 404 missing_msg, t')
               else Inr (\<lparr>status = 200, success = True, message = Some ok_msg,
                          count = None, data = None\<rparr>, t')))"

definition deleteDoctor :: "store \<Rightarrow> request \<Rightarrow> response \<times> store" where
  "deleteDoctor st req =
     (case delete_try ''doctor_id'' ''hospital_id''
             ''Doctor not found'' ''Doctor deleted successfully'' (doctors st) req of
        Inl err \<Rightarrow> (server_error, st)
      | Inr (res, t') \<Rightarrow> (res, st\<lparr>doctors := t'\<rparr>))"

definition deleteMedicine :: "store \<Rightarrow> request \<Rightarrow> response \<times> store" where
  "deleteMedicine st req =
     (case delete_try ''medicine_id'' ''pharmacy_id''
             ''Medicine not found'' ''Medicine deleted successfully'' (medicines st) req of
        Inl err \<Rightarrow> (server_error, st)
      | Inr (res, t') \<Rightarrow> (res, st\<lparr>medicines := t'\<rparr>))"

section \<open>Routes\<close>

text \<open>
  \<^verbatim>\<open>router.put(path, authMiddleware(role), handler)\<close>: the handler runs on the request the
  guard passes on; a response of the guard ends the request and leaves the store as it
  is.
\<close>

definition guarded ::
  "string \<Rightarrow> env \<Rightarrow> (store \<Rightarrow> request \<Rightarrow> response \<times> store) \<Rightarrow> store \<Rightarrow> request \<Rightarrow>
     response \<times> store" where
  "guarded role e handler st req =
     (case authMiddleware (Some role) e req of
        Inl res \<Rightarrow> (res, st)
      | Inr req' \<Rightarrow> handler st req')"

definition put_doctor :: "env \<Rightarrow> engine \<Rightarrow> store \<Rightarrow> request \<Rightarrow> response \<times> store" where
  "put_doctor e eng = guarded ''hospital'' e (updateDoctor eng)"

definition delete_doctor :: "env \<Rightarrow> store \<Rightarrow> request \<Rightarrow> response \<times> store" where
  "delete_doctor e = guarded ''hospital'' e deleteDoctor"

definition put_medicine :: "env \<Rightarrow> engine \<Rightarrow> store \<Rightarrow> request \<Rightarrow> response \<times> store" where
  "put_medicine e eng = guarded ''pharmacy'' e (updateMedicine eng)"

definition delete_medicine :: "env \<Rightarrow> store \<Rightarrow> request \<Rightarrow> response \<times> store" where
  "delete_medicine e = guarded ''pharmacy'' e deleteMedicine"

section \<open>Notions the properties are stated with\<close>

text \<open>The rows a search response carries.\<close>

definition result_rows :: "response \<Rightarrow> row list" where
  "result_rows res = (case data res of Some (DataRows rs) \<Rightarrow> rs | _ \<Rightarrow> [])"

text \<open>One column of the rows a search response carries.\<close>

definition result_column :: "string \<Rightarrow> response \<Rightarrow> val list" where
  "result_column c res = map (\<lambda>r. cell r c) (result_rows res)"

text \<open>
  A filter of a search on a column value: an absent filter (\<open>undefined\<close> or the empty
  string) holds of every value, a present one holds when the value matches the pattern
  \<open>%value%\<close>.
\<close>

definition filter_holds :: "string option \<Rightarrow> val \<Rightarrow> bool" where
  "filter_holds f v =
     (case f of None \<Rightarrow> True | Some s \<Rightarrow> s = [] \<or> sql_ilike v (VText (''%'' @ s @ ''%'')))"

text \<open>A filter value without the pattern characters \<open>%\<close>, \<open>_\<close> and backslash.\<close>

definition plain :: "string \<Rightarrow> bool" where
  "plain s = (CHR ''%'' \<notin> set s \<and> CHR ''_'' \<notin> set s \<and> CHR 0x5C \<notin> set s)"

text \<open>A case-insensitive substring match of a filter value on a column value.\<close>

definition ci_substring :: "string \<Rightarrow> val \<Rightarrow> bool" where
  "ci_substring s v = (case v of VText x \<Rightarrow> sublist (lower s) (lower x) | _ \<Rightarrow> False)"

text \<open>
  The token as the substring after the first space of the header, the reading of
  \<^verbatim>\<open>split(' ')[1]\<close> that the guard is compared with below.
\<close>

definition after_first_space :: "string \<Rightarrow> string option" where
  "after_first_space h =
     (if CHR '' '' \<in> set h then Some (tl (dropWhile (\<lambda>c. c \<noteq> CHR '' '') h)) else None)"

text \<open>One set of filters extends another: it keeps every filter that is present.\<close>

definition extends :: "string list \<Rightarrow> request \<Rightarrow> request \<Rightarrow> bool" where
  "extends keys req req' =
     list_all (\<lambda>k. js_truthy (query req k) \<longrightarrow> query req' k = query req k) keys"

section \<open>Example data\<close>

definition demo_verify :: "string \<Rightarrow> decoded option" where
  "demo_verify t =
     (if t = ''tok-h1'' then Some \<lparr>tok_id = VInt 1, userType = ''hospital''\<rparr>
      else if t = ''tok-h2'' then Some \<lparr>tok_id = VInt 2, userType = ''hospital''\<rparr>
      else if t = ''tok-p1'' then Some \<lparr>tok_id = VInt 1, userType = ''pharmacy''\<rparr>
      else if t = ''tok-p2'' then Some \<lparr>tok_id = VInt 2, userType = ''pharmacy''\<rparr>
      else if t = ''tok-u1'' then Some \<lparr>tok_id = VInt 1, userType = ''user''\<rparr>
      else None)"

definition demo_sign :: "decoded \<Rightarrow> string" where
  "demo_sign dec =
     ''tok-'' @ take 1 (userType dec)
       @ (case tok_id dec of VInt n \<Rightarrow> string_of_nat (nat n) | _ \<Rightarrow> ''?'')"

definition demo_env :: env where
  "demo_env =
     \<lparr>jwt_sign = demo_sign, jwt_verify = demo_verify,
      bcrypt_hash = (\<lambda>p. ''$2b$'' @ rev p),
      bcrypt_compare = (\<lambda>p h. h = ''$2b$'' @ rev p)\<rparr>"

definition demo_request :: "string option \<Rightarrow> request" where
  "demo_request h =
     \<lparr>authorization = h, params = Map.empty, query = Map.empty, body = [], user = None\<rparr>"

definition demo_users :: table where
  "demo_users =
     \<lparr>rows = [[''user_id'' \<mapsto> VInt 1, ''full_name'' \<mapsto> VText ''Asha'',
               ''email'' \<mapsto> VText ''asha@x.com'', ''password_hash'' \<mapsto> VText ''$2b$1wp'']],
      serial = 2, defaults = Map.empty\<rparr>"

definition demo_hospitals :: table where
  "demo_hospitals =
     \<lparr>rows = [[''hospital_id'' \<mapsto> VInt 1, ''hospital_name'' \<mapsto> VText ''City Hospital'',
               ''email'' \<mapsto> VText ''a@x.com'', ''password_hash'' \<mapsto> VText ''$2b$1p'',
               ''phone'' \<mapsto> VText ''111'', ''address'' \<mapsto> VText ''MG Road'',
               ''city'' \<mapsto> VText ''Pune'', ''is_active'' \<mapsto> VBool True],
              [''hospital_id'' \<mapsto> VInt 2, ''hospital_name'' \<mapsto> VText ''Lake Clinic'',
               ''email'' \<mapsto> VText ''b@x.com'', ''password_hash'' \<mapsto> VText ''$2b$2p'',
               ''phone'' \<mapsto> VText ''222'', ''address'' \<mapsto> VText ''Lake Road'',
               ''city'' \<mapsto> VText ''Pune'', ''is_active'' \<mapsto> VBool True]],
      serial = 3, defaults = [''is_active'' \<mapsto> VBool True]\<rparr>"

definition demo_pharmacies :: table where
  "demo_pharmacies =
     \<lparr>rows = [[''pharmacy_id'' \<mapsto> VInt 1, ''pharmacy_name'' \<mapsto> VText ''Good Pharmacy'',
               ''email'' \<mapsto> VText ''a@x.com'', ''password_hash'' \<mapsto> VText ''$2b$3p'',
               ''phone'' \<mapsto> VText ''333'', ''address'' \<mapsto> VText ''FC Road'',
               ''city'' \<mapsto> VText ''Pune'', ''is_active'' \<mapsto> VBool True],
              [''pharmacy_id'' \<mapsto> VInt 2, ''pharmacy_name'' \<mapsto> VText ''Care Chemists'',
               ''email'' \<mapsto> VText ''c@x.com'', ''password_hash'' \<mapsto> VText ''$2b$4p'',
               ''phone'' \<mapsto> VText ''444'', ''address'' \<mapsto> VText ''JM Road'',
               ''city'' \<mapsto> VText ''Pune'', ''is_active'' \<mapsto> VBool True]],
      serial = 3, defaults = [''is_active'' \<mapsto> VBool True]\<rparr>"

definition demo_doctors :: table where
  "demo_doctors =
     \<lparr>rows = [[''doctor_id'' \<mapsto> VInt 1, ''hospital_id'' \<mapsto> VInt 1,
               ''full_name'' \<mapsto> VText ''Dr. Rao'', ''specialization'' \<mapsto> VText ''Cardiology'',
               ''is_available'' \<mapsto> VBool True],
              [''doctor_id'' \<mapsto> VInt 2, ''hospital_id'' \<mapsto> VInt 2,
               ''full_name'' \<mapsto> VText ''Dr. Bose'',
               ''specialization'' \<mapsto> VText ''Cardiac Surgery'', ''is_available'' \<mapsto> VBool True],
              [''doctor_id'' \<mapsto> VInt 3, ''hospital_id'' \<mapsto> VInt 1,
               ''full_name'' \<mapsto> VText ''Dr. Iyer'', ''specialization'' \<mapsto> VText ''Dermatology'',
               ''is_available'' \<mapsto> VBool False]],
      serial = 4, defaults = [''is_available'' \<mapsto> VBool True]\<rparr>"

definition demo_medicines :: table where
  "demo_medicines =
     \<lparr>rows = [[''medicine_id'' \<mapsto> VInt 1, ''pharmacy_id'' \<mapsto> VInt 1,
               ''medicine_name'' \<mapsto> VText ''Crocin'', ''generic_name'' \<mapsto> VText ''Paracetamol'',
               ''category'' \<mapsto> VText ''Analgesic'', ''stock_quantity'' \<mapsto> VInt 10,
               ''is_available'' \<mapsto> VBool True],
              [''medicine_id'' \<mapsto> VInt 2, ''pharmacy_id'' \<mapsto> VInt 2,
               ''medicine_name'' \<mapsto> VText ''Calpol'', ''generic_name'' \<mapsto> VText ''Paracetamol'',
               ''category'' \<mapsto> VText ''Analgesic'', ''stock_quantity'' \<mapsto> VInt 5,
               ''is_available'' \<mapsto> VBool True],
              [''medicine_id'' \<mapsto> VInt 3, ''pharmacy_id'' \<mapsto> VInt 1,
               ''medicine_name'' \<mapsto> VText ''Amoxil'', ''generic_name'' \<mapsto> VText ''Amoxicillin'',
               ''category'' \<mapsto> VText ''Antibiotic'', ''stock_quantity'' \<mapsto> VInt 0,
               ''is_available'' \<mapsto> VBool True]],
      serial = 4, defaults = [''is_available'' \<mapsto> VBool True]\<rparr>"

definition demo_store :: store where
  "demo_store =
     \<lparr>users = demo_users, hospitals = demo_hospitals, pharmacies = demo_pharmacies,
      doctors = demo_doctors, medicines = demo_medicines\<rparr>"

text \<open>A request with a JSON body, and a request with a query string.\<close>

definition demo_post :: "(string \<times> val) list \<Rightarrow> request" where
  "demo_post b = (demo_request None)\<lparr>body := b\<rparr>"

definition demo_get :: "(string \<times> string) list \<Rightarrow> request" where
  "demo_get q = (demo_request None)\<lparr>query := map_of q\<rparr>"

text \<open>
  A request on an owned resource: the header, the name and value of the path parameter
  and the JSON body.
\<close>

definition demo_owned :: "string \<Rightarrow> string \<Rightarrow> int \<Rightarrow> (string \<times> val) list \<Rightarrow> request" where
  "demo_owned h key_col k b = (demo_request (Some h))\<lparr>params := [key_col \<mapsto> VInt k], body := b\<rparr>"

text \<open>An engine for the examples: it accepts every statement it is given, changes nothing
  and returns the rows of the table.\<close>

definition demo_engine :: engine where
  "demo_engine text ps t = Inr (rows t, t)"

section \<open>The access guard: properties\<close>

lemma js_split_nonempty: "js_split c s \<noteq> []"
  by (induction s) (auto split: list.splits)

lemma js_split_no_sep: "c \<notin> set s \<Longrightarrow> js_split c s = [s]"
  by (induction s) auto

lemma js_split_first: "c \<notin> set x \<Longrightarrow> js_split c (x @ c # t) = x # js_split c t"
  by (induction x) auto

lemma js_split_hd: "js_split c t = takeWhile (\<lambda>d. d \<noteq> c) t # tl (js_split c t)"
  by (induction t) (auto split: list.splits simp: js_split_nonempty)

lemma header_token_second:
  assumes "CHR '' '' \<notin> set x"
  shows "header_token (req\<lparr>authorization := Some (x @ '' '' @ t)\<rparr>)
           = Some (takeWhile (\<lambda>d. d \<noteq> CHR '' '') t)"
proof -
  have "js_split CHR '' '' (x @ '' '' @ t) = x # js_split CHR '' '' t"
    using js_split_first [OF assms, of t] by simp
  moreover have "js_index (x # js_split CHR '' '' t) 1
      = Some (takeWhile (\<lambda>d. d \<noteq> CHR '' '') t)"
    using js_split_hd [of "CHR '' ''" t] by (metis One_nat_def js_index.simps(2) js_index.simps(3))
  ultimately show ?thesis by (simp add: header_token_def)
qed

lemma header_token_no_space:
  "CHR '' '' \<notin> set h \<Longrightarrow> header_token (req\<lparr>authorization := Some h\<rparr>) = None"
  by (simp add: header_token_def js_split_no_sep)

text \<open>
  C2. A request with no \<^verbatim>\<open>Authorization\<close> header, or whose header yields no token, is
  answered 401 ``no token provided''; a token that \<^verbatim>\<open>jwt.verify\<close> rejects, whatever the
  cause (signature, malformed payload, expiry), is answered 401 ``invalid token''; a
  verified token whose role differs from the required role (a non-empty role name) is
  answered 403; in every other case the decoded payload is attached as \<^verbatim>\<open>req.user\<close> and
  the request is passed on to the handler.
\<close>

theorem authMiddleware_cases:
  "(authorization req = None \<or> header_token req = None \<or> header_token req = Some []
      \<longrightarrow> authMiddleware ut e req = Inl (failure 401 ''Access denied. No token provided.''))
   \<and> (header_token req = Some t \<and> t \<noteq> [] \<and> jwt_verify e t = None
      \<longrightarrow> authMiddleware ut e req = Inl (failure 401 ''Invalid token.''))
   \<and> (header_token req = Some t \<and> t \<noteq> [] \<and> jwt_verify e t = Some dec
        \<and> ut = Some r \<and> r \<noteq> [] \<and> userType dec \<noteq> r
      \<longrightarrow> authMiddleware ut e req = Inl (failure 403 ''Access denied. Insufficient permissions.''))
   \<and> (header_token req = Some t \<and> t \<noteq> [] \<and> jwt_verify e t = Some dec
        \<and> (ut = None \<or> ut = Some [] \<or> ut = Some (userType dec))
      \<longrightarrow> authMiddleware ut e req = Inr (req\<lparr>user := Some dec\<rparr>))"
  by (auto simp: authMiddleware_def auth_try_def js_truthy_def header_token_def Let_def
      split: option.splits)

theorem authMiddleware_cases_witness:
  "authorization (demo_request None) = None
   \<and> authMiddleware (Some ''hospital'') demo_env (demo_request None)
       = Inl (failure 401 ''Access denied. No token provided.'')
   \<and> header_token (demo_request (Some ''Bearer forged'')) = Some ''forged''
   \<and> jwt_verify demo_env ''forged'' = None
   \<and> authMiddleware (Some ''hospital'') demo_env (demo_request (Some ''Bearer forged''))
       = Inl (failure 401 ''Invalid token.'')
   \<and> header_token (demo_request (Some ''Bearer tok-p1'')) = Some ''tok-p1''
   \<and> jwt_verify demo_env ''tok-p1'' = Some \<lparr>tok_id = VInt 1, userType = ''pharmacy''\<rparr>
   \<and> authMiddleware (Some ''hospital'') demo_env (demo_request (Some ''Bearer tok-p1''))
       = Inl (failure 403 ''Access denied. Insufficient permissions.'')
   \<and> header_token (demo_request (Some ''Bearer tok-h1'')) = Some ''tok-h1''
   \<and> jwt_verify demo_env ''tok-h1'' = Some \<lparr>tok_id = VInt 1, userType = ''hospital''\<rparr>
   \<and> authMiddleware (Some ''hospital'') demo_env (demo_request (Some ''Bearer tok-h1''))
       = Inr ((demo_request (Some ''Bearer tok-h1''))
               \<lparr>user := Some \<lparr>tok_id = VInt 1, userType = ''hospital''\<rparr>\<rparr>)"
proof -
  have h1: "authorization (demo_request None) = None"
    by (simp add: demo_request_def)
  have t2: "header_token (demo_request (Some ''Bearer forged'')) = Some ''forged''"
    by (simp add: demo_request_def header_token_def)
  have v2: "jwt_verify demo_env ''forged'' = None"
    by (simp add: demo_env_def demo_verify_def)
  have t3: "header_token (demo_request (Some ''Bearer tok-p1'')) = Some ''tok-p1''"
    by (simp add: demo_request_def header_token_def)
  have v3: "jwt_verify demo_env ''tok-p1'' = Some \<lparr>tok_id = VInt 1, userType = ''pharmacy''\<rparr>"
    by (simp add: demo_env_def demo_verify_def)
  have t4: "header_token (demo_request (Some ''Bearer tok-h1'')) = Some ''tok-h1''"
    by (simp add: demo_request_def header_token_def)
  have v4: "jwt_verify demo_env ''tok-h1'' = Some \<lparr>tok_id = VInt 1, userType = ''hospital''\<rparr>"
    by (simp add: demo_env_def demo_verify_def)
  have c1: "authMiddleware (Some ''hospital'') demo_env (demo_request None)
       = Inl (failure 401 ''Access denied. No token provided.'')"
    using authMiddleware_cases [of "demo_request None" "Some ''hospital''" demo_env] h1
    by blast
  have c2: "authMiddleware (Some ''hospital'') demo_env (demo_request (Some ''Bearer forged''))
       = Inl (failure 401 ''Invalid token.'')"
    using authMiddleware_cases [of "demo_request (Some ''Bearer forged'')" "Some ''hospital''"
        demo_env "''forged''"] t2 v2
    by simp
  have c3: "authMiddleware (Some ''hospital'') demo_env (demo_request (Some ''Bearer tok-p1''))
       = Inl (failure 403 ''Access denied. Insufficient permissions.'')"
    using authMiddleware_cases [of "demo_request (Some ''Bearer tok-p1'')" "Some ''hospital''"
        demo_env "''tok-p1''" "\<lparr>tok_id = VInt 1, userType = ''pharmacy''\<rparr>" "''hospital''"] t3 v3
    by simp
  have c4: "authMiddleware (Some ''hospital'') demo_env (demo_request (Some ''Bearer tok-h1''))
       = Inr ((demo_request (Some ''Bearer tok-h1''))
               \<lparr>user := Some \<lparr>tok_id = VInt 1, userType = ''hospital''\<rparr>\<rparr>)"
    using authMiddleware_cases [of "demo_request (Some ''Bearer tok-h1'')" "Some ''hospital''"
        demo_env "''tok-h1''" "\<lparr>tok_id = VInt 1, userType = ''hospital''\<rparr>"] t4 v4
    by simp
  show ?thesis using h1 t2 v2 t3 v3 t4 v4 c1 c2 c3 c4 by simp
qed

text \<open>
  C10 (amended). The guard never looks at the scheme word: the token is the part of the
  header between its first and its second space (up to the end when there is no second
  space). So a header \<open>x t\<close> with any space-free word \<open>x\<close> and a valid token \<open>t\<close> passes
  the guard, and a header without a space, such as the token alone, is answered 401 as
  if no token were provided.
\<close>

theorem guard_token_segment:
  "(CHR '' '' \<notin> set x \<longrightarrow>
      header_token (req\<lparr>authorization := Some (x @ '' '' @ rest)\<rparr>)
        = Some (takeWhile (\<lambda>c. c \<noteq> CHR '' '') rest))
   \<and> (CHR '' '' \<notin> set x \<and> CHR '' '' \<notin> set t \<and> t \<noteq> [] \<and> jwt_verify e t = Some dec
        \<and> (ut = None \<or> ut = Some (userType dec)) \<longrightarrow>
      authMiddleware ut e (req\<lparr>authorization := Some (x @ '' '' @ t)\<rparr>)
        = Inr (req\<lparr>authorization := Some (x @ '' '' @ t), user := Some dec\<rparr>))
   \<and> (CHR '' '' \<notin> set h \<longrightarrow>
      authMiddleware ut e (req\<lparr>authorization := Some h\<rparr>)
        = Inl (failure 401 ''Access denied. No token provided.''))"
proof (intro conjI impI)
  assume "CHR '' '' \<notin> set x"
  then show "header_token (req\<lparr>authorization := Some (x @ '' '' @ rest)\<rparr>)
        = Some (takeWhile (\<lambda>c. c \<noteq> CHR '' '') rest)"
    by (rule header_token_second)
next
  assume a: "CHR '' '' \<notin> set x \<and> CHR '' '' \<notin> set t \<and> t \<noteq> [] \<and> jwt_verify e t = Some dec
        \<and> (ut = None \<or> ut = Some (userType dec))"
  then have "header_token (req\<lparr>authorization := Some (x @ '' '' @ t)\<rparr>) = Some t"
    using header_token_second [where x=x and req=req and t=t] by (auto simp: takeWhile_eq_all_conv)
  with a show "authMiddleware ut e (req\<lparr>authorization := Some (x @ '' '' @ t)\<rparr>)
        = Inr (req\<lparr>authorization := Some (x @ '' '' @ t), user := Some dec\<rparr>)"
    by (auto simp: authMiddleware_def auth_try_def js_truthy_def Let_def)
next
  assume "CHR '' '' \<notin> set h"
  then have "header_token (req\<lparr>authorization := Some h\<rparr>) = None"
    by (rule header_token_no_space)
  then show "authMiddleware ut e (req\<lparr>authorization := Some h\<rparr>)
        = Inl (failure 401 ''Access denied. No token provided.'')"
    by (simp add: authMiddleware_def auth_try_def js_truthy_def Let_def)
qed

theorem guard_token_segment_counterexample:
  "after_first_space ''Bearer tok-h1 x'' = Some ''tok-h1 x''
   \<and> header_token (demo_request (Some ''Bearer tok-h1 x'')) = Some ''tok-h1''
   \<and> jwt_verify demo_env ''tok-h1 x'' = None
   \<and> authMiddleware (Some ''hospital'') demo_env (demo_request (Some ''Bearer tok-h1 x''))
       = Inr ((demo_request (Some ''Bearer tok-h1 x''))
               \<lparr>user := Some \<lparr>tok_id = VInt 1, userType = ''hospital''\<rparr>\<rparr>)"
  by (simp add: after_first_space_def header_token_def demo_request_def demo_env_def
      demo_verify_def authMiddleware_def auth_try_def js_truthy_def)

theorem guard_token_segment_witness:
  "CHR '' '' \<notin> set ''Token'' \<and> CHR '' '' \<notin> set ''tok-h1'' \<and> ''tok-h1'' \<noteq> []
   \<and> jwt_verify demo_env ''tok-h1'' = Some \<lparr>tok_id = VInt 1, userType = ''hospital''\<rparr>
   \<and> header_token (demo_request (Some ''Token tok-h1 x'')) = Some ''tok-h1''
   \<and> authMiddleware (Some ''hospital'') demo_env (demo_request (Some ''Token tok-h1''))
       = Inr ((demo_request (Some ''Token tok-h1''))
               \<lparr>user := Some \<lparr>tok_id = VInt 1, userType = ''hospital''\<rparr>\<rparr>)
   \<and> authMiddleware (Some ''hospital'') demo_env (demo_request (Some ''tok-h1''))
       = Inl (failure 401 ''Access denied. No token provided.'')"
proof -
  have x: "CHR '' '' \<notin> set ''Token''" and t: "CHR '' '' \<notin> set ''tok-h1''" by simp_all
  have v: "jwt_verify demo_env ''tok-h1'' = Some \<lparr>tok_id = VInt 1, userType = ''hospital''\<rparr>"
    by (simp add: demo_env_def demo_verify_def)
  note g = guard_token_segment [where x = "''Token''" and req = "demo_request None"
      and t = "''tok-h1''" and e = demo_env
      and dec = "\<lparr>tok_id = VInt 1, userType = ''hospital''\<rparr>" and ut = "Some ''hospital''"
      and h = "''tok-h1''"]
  have a: "header_token (demo_request (Some ''Token tok-h1 x'')) = Some ''tok-h1''"
    using g [where rest = "''tok-h1 x''"] x by (simp add: demo_request_def)
  have b: "authMiddleware (Some ''hospital'') demo_env (demo_request (Some ''Token tok-h1''))
       = Inr ((demo_request (Some ''Token tok-h1''))
               \<lparr>user := Some \<lparr>tok_id = VInt 1, userType = ''hospital''\<rparr>\<rparr>)"
    using g [where rest = "[]"] x t v by (simp add: demo_request_def)
  have c: "authMiddleware (Some ''hospital'') demo_env (demo_request (Some ''tok-h1''))
       = Inl (failure 401 ''Access denied. No token provided.'')"
    using g [where rest = "[]"] t by (simp add: demo_request_def)
  show ?thesis using x t v a b c by simp
qed

section \<open>Login and registration: properties\<close>

lemma login_try_unknown:
  "select_by_email t (param (map_of (body req) ''email'')) = []
   \<Longrightarrow> login_try kc nc role e t req = Inr (failure 401 ''Invalid credentials'')"
  by (simp add: login_try_def Let_def)

lemma login_try_mismatch:
  "select_by_email t (param (map_of (body req) ''email'')) = u # rest
   \<Longrightarrow> map_of (body req) ''password'' = Some (VText pw)
   \<Longrightarrow> cell u ''password_hash'' = VText h
   \<Longrightarrow> \<not> bcrypt_compare e pw h
   \<Longrightarrow> login_try kc nc role e t req = Inr (failure 401 ''Invalid credentials'')"
  by (simp add: login_try_def Let_def)

text \<open>
  C3 (amended). For each of the three logins: a login whose email matches no record, and
  a login whose email matches a record but whose password, a string, does not verify
  against the stored hash, are answered by the same response, status 401 with the
  message ``Invalid credentials''.
\<close>

theorem login_failures_identical:
  "(select_by_email (users st) (param (map_of (body req1) ''email'')) = []
      \<and> select_by_email (users st) (param (map_of (body req2) ''email'')) = u # rest
      \<and> map_of (body req2) ''password'' = Some (VText pw)
      \<and> cell u ''password_hash'' = VText h \<and> \<not> bcrypt_compare e pw h
    \<longrightarrow> loginUser e st req1 = failure 401 ''Invalid credentials''
        \<and> loginUser e st req2 = loginUser e st req1)
   \<and> (select_by_email (hospitals st) (param (map_of (body req1) ''email'')) = []
      \<and> select_by_email (hospitals st) (param (map_of (body req2) ''email'')) = u # rest
      \<and> map_of (body req2) ''password'' = Some (VText pw)
      \<and> cell u ''password_hash'' = VText h \<and> \<not> bcrypt_compare e pw h
    \<longrightarrow> hospitalLogin e st req1 = failure 401 ''Invalid credentials''
        \<and> hospitalLogin e st req2 = hospitalLogin e st req1)
   \<and> (select_by_email (pharmacies st) (param (map_of (body req1) ''email'')) = []
      \<and> select_by_email (pharmacies st) (param (map_of (body req2) ''email'')) = u # rest
      \<and> map_of (body req2) ''password'' = Some (VText pw)
      \<and> cell u ''password_hash'' = VText h \<and> \<not> bcrypt_compare e pw h
    \<longrightarrow> pharmacyLogin e st req1 = failure 401 ''Invalid credentials''
        \<and> pharmacyLogin e st req2 = pharmacyLogin e st req1)"
  by (simp add: loginUser_def hospitalLogin_def pharmacyLogin_def login_try_unknown
      login_try_mismatch)

lemma demo_select_users:
  "select_by_email (users demo_store) (VText ''nobody@x.com'') = []"
  "select_by_email (users demo_store) (VText ''a@x.com'') = []"
  "select_by_email (users demo_store) (VText ''asha@x.com'') = rows demo_users"
  "select_by_email (users demo_store) (VText ''asha@x.com'') \<noteq> []"
  by (simp_all add: select_by_email_def demo_store_def demo_users_def sql_eq_def cell_def)

lemma demo_select_hospitals:
  "select_by_email (hospitals demo_store) (VText ''nobody@x.com'') = []"
  "select_by_email (hospitals demo_store) (VText ''asha@x.com'') = []"
  "select_by_email (hospitals demo_store) (VText ''a@x.com'') = [hd (rows demo_hospitals)]"
  "select_by_email (hospitals demo_store) (VText ''a@x.com'') \<noteq> []"
  by (simp_all add: select_by_email_def demo_store_def demo_hospitals_def sql_eq_def cell_def)

lemma demo_select_pharmacies:
  "select_by_email (pharmacies demo_store) (VText ''nobody@x.com'') = []"
  "select_by_email (pharmacies demo_store) (VText ''asha@x.com'') = []"
  "select_by_email (pharmacies demo_store) (VText ''a@x.com'') = [hd (rows demo_pharmacies)]"
  "select_by_email (pharmacies demo_store) (VText ''a@x.com'') \<noteq> []"
  by (simp_all add: select_by_email_def demo_store_def demo_pharmacies_def sql_eq_def cell_def)

theorem login_failures_identical_witness:
  "loginUser demo_env demo_store
      (demo_post [(''email'', VText ''nobody@x.com''), (''password'', VText ''pw1'')])
     = failure 401 ''Invalid credentials''
   \<and> loginUser demo_env demo_store
      (demo_post [(''email'', VText ''asha@x.com''), (''password'', VText ''guess'')])
     = failure 401 ''Invalid credentials''
   \<and> hospitalLogin demo_env demo_store
      (demo_post [(''email'', VText ''nobody@x.com''), (''password'', VText ''p1'')])
     = failure 401 ''Invalid credentials''
   \<and> hospitalLogin demo_env demo_store
      (demo_post [(''email'', VText ''a@x.com''), (''password'', VText ''guess'')])
     = failure 401 ''Invalid credentials''
   \<and> pharmacyLogin demo_env demo_store
      (demo_post [(''email'', VText ''nobody@x.com''), (''password'', VText ''p3'')])
     = failure 401 ''Invalid credentials''
   \<and> pharmacyLogin demo_env demo_store
      (demo_post [(''email'', VText ''a@x.com''), (''password'', VText ''guess'')])
     = failure 401 ''Invalid credentials''"
proof -
  let ?r1 = "\<lambda>p. demo_post [(''email'', VText ''nobody@x.com''), (''password'', VText p)]"
  let ?r2 = "\<lambda>m. demo_post [(''email'', VText m), (''password'', VText ''guess'')]"
  have e1: "param (map_of (body (?r1 p)) ''email'') = VText ''nobody@x.com''" for p
    by (simp add: demo_post_def demo_request_def param_def)
  have e2: "param (map_of (body (?r2 m)) ''email'') = VText m" for m
    by (simp add: demo_post_def demo_request_def param_def)
  have p2: "map_of (body (?r2 m)) ''password'' = Some (VText ''guess'')" for m
    by (simp add: demo_post_def demo_request_def)
  have c: "\<not> bcrypt_compare demo_env ''guess'' ''$2b$1wp''"
    "\<not> bcrypt_compare demo_env ''guess'' ''$2b$1p''"
    "\<not> bcrypt_compare demo_env ''guess'' ''$2b$3p''"
    by (simp_all add: demo_env_def)
  have hu: "cell (hd (rows demo_users)) ''password_hash'' = VText ''$2b$1wp''"
    by (simp add: demo_users_def cell_def)
  have hh: "cell (hd (rows demo_hospitals)) ''password_hash'' = VText ''$2b$1p''"
    by (simp add: demo_hospitals_def cell_def)
  have hp: "cell (hd (rows demo_pharmacies)) ''password_hash'' = VText ''$2b$3p''"
    by (simp add: demo_pharmacies_def cell_def)
  have ru: "rows demo_users = [hd (rows demo_users)]"
    by (simp add: demo_users_def)
  note t = login_failures_identical [where e = demo_env and st = demo_store
      and pw = "''guess''" and rest = "[]"]
  have u: "loginUser demo_env demo_store (?r1 ''pw1'') = failure 401 ''Invalid credentials''
      \<and> loginUser demo_env demo_store (?r2 ''asha@x.com'')
          = loginUser demo_env demo_store (?r1 ''pw1'')"
    using t [where ?req1.0 = "?r1 ''pw1''" and ?req2.0 = "?r2 ''asha@x.com''"
        and u = "hd (rows demo_users)" and h = "''$2b$1wp''"]
      e1 e2 p2 c hu ru demo_select_users
    by simp
  have h: "hospitalLogin demo_env demo_store (?r1 ''p1'') = failure 401 ''Invalid credentials''
      \<and> hospitalLogin demo_env demo_store (?r2 ''a@x.com'')
          = hospitalLogin demo_env demo_store (?r1 ''p1'')"
    using t [where ?req1.0 = "?r1 ''p1''" and ?req2.0 = "?r2 ''a@x.com''"
        and u = "hd (rows demo_hospitals)" and h = "''$2b$1p''"]
      e1 e2 p2 c hh demo_select_hospitals
    by simp
  have p: "pharmacyLogin demo_env demo_store (?r1 ''p3'') = failure 401 ''Invalid credentials''
      \<and> pharmacyLogin demo_env demo_store (?r2 ''a@x.com'')
          = pharmacyLogin demo_env demo_store (?r1 ''p3'')"
    using t [where ?req1.0 = "?r1 ''p3''" and ?req2.0 = "?r2 ''a@x.com''"
        and u = "hd (rows demo_pharmacies)" and h = "''$2b$3p''"]
      e1 e2 p2 c hp demo_select_pharmacies
    by simp
  show ?thesis using u h p by simp
qed

text \<open>
  Without the restriction to string passwords the two failures differ: a login that
  carries no password, or a password that is not a string, is answered 401 when the
  email is unknown and 500 when it is known, since \<^verbatim>\<open>bcrypt.compare\<close> throws.
\<close>

theorem login_failures_identical_counterexample:
  "map_of (body (demo_post [(''email'', VText ''asha@x.com'')])) ''password'' = None
   \<and> loginUser demo_env demo_store (demo_post [(''email'', VText ''nobody@x.com'')])
       = failure 401 ''Invalid credentials''
   \<and> loginUser demo_env demo_store (demo_post [(''email'', VText ''asha@x.com'')])
       = failure 500 ''Server error''
   \<and> hospitalLogin demo_env demo_store (demo_post [(''email'', VText ''nobody@x.com'')])
       = failure 401 ''Invalid credentials''
   \<and> hospitalLogin demo_env demo_store (demo_post [(''email'', VText ''a@x.com'')])
       = failure 500 ''Server error''
   \<and> pharmacyLogin demo_env demo_store
        (demo_post [(''email'', VText ''nobody@x.com''), (''password'', VInt 1)])
       = failure 401 ''Invalid credentials''
   \<and> pharmacyLogin demo_env demo_store
        (demo_post [(''email'', VText ''a@x.com''), (''password'', VInt 1)])
       = failure 500 ''Server error''
   \<and> status (failure 500 ''Server error'') = 500
   \<and> status (failure 401 ''Invalid credentials'') = 401"
proof -
  have b: "body (demo_post xs) = xs" for xs
    by (simp add: demo_post_def demo_request_def)
  show ?thesis
    by (simp add: loginUser_def hospitalLogin_def pharmacyLogin_def login_try_def Let_def b
        param_def demo_select_users demo_select_hospitals demo_select_pharmacies
        server_error_def failure_def demo_users_def cell_def)
qed

lemma register_try_conflict:
  "select_by_email t (param (map_of (body req) ''email'')) \<noteq> []
   \<Longrightarrow> register_try kc nc extra role m1 m2 e t req = Inr (failure 400 m1, t)"
  by (simp add: register_try_def Let_def)

lemma register_try_fresh:
  assumes "select_by_email t (param (map_of (body req) ''email'')) = []"
    and "map_of (body req) ''password'' = Some (VText pw)"
    and "nc \<noteq> ''email''"
  shows "\<exists>res r. register_try kc nc extra role m1 m2 e t req
            = Inr (res, t\<lparr>rows := rows t @ [r], serial := serial t + 1\<rparr>)
          \<and> status res = 201 \<and> success res
          \<and> cell r ''email'' = param (map_of (body req) ''email'')"
proof -
  define cols where "cols = (nc, param (map_of (body req) nc)) #
      (''email'', param (map_of (body req) ''email'')) #
      (''password_hash'', VText (bcrypt_hash e pw)) #
      map (\<lambda>c. (c, param (map_of (body req) c))) extra"
  define r where "r = snd (insert_row t kc cols)"
  define res where "res = \<lparr>status = 201, success = True, message = Some m2, count = None,
      data = Some (DataAuth role (r |` {kc, nc, ''email''})
        (generateToken e (cell (r |` {kc, nc, ''email''}) kc) role))\<rparr>"
  have i: "insert_row t kc cols = (t\<lparr>rows := rows t @ [r], serial := serial t + 1\<rparr>, r)"
    by (simp add: r_def insert_row_def Let_def)
  have "register_try kc nc extra role m1 m2 e t req
      = Inr (res, t\<lparr>rows := rows t @ [r], serial := serial t + 1\<rparr>)"
    using assms(1,2) i by (simp add: register_try_def Let_def cols_def [symmetric] res_def)
  moreover have "cell r ''email'' = param (map_of (body req) ''email'')"
    using assms(3) by (simp add: r_def insert_row_def Let_def cols_def cell_def map_add_def)
  moreover have "status res = 201 \<and> success res"
    by (simp add: res_def)
  ultimately show ?thesis by blast
qed

lemma select_by_email_appended:
  "cell r ''email'' = em \<Longrightarrow> em \<noteq> VNull
   \<Longrightarrow> select_by_email (t\<lparr>rows := rows t @ [r], serial := s\<rparr>) em \<noteq> []"
  by (simp add: select_by_email_def sql_eq_def)

lemma register_try_twice:
  assumes "select_by_email t (param (map_of (body req) ''email'')) = []"
    and "map_of (body req) ''password'' = Some (VText pw)"
    and "nc \<noteq> ''email''"
    and "param (map_of (body req) ''email'') \<noteq> VNull"
    and "param (map_of (body req') ''email'') = param (map_of (body req) ''email'')"
  shows "\<exists>res t'. register_try kc nc extra role m1 m2 e t req = Inr (res, t')
          \<and> register_try kc nc extra role m1 m2 e t' req' = Inr (failure 400 m1, t')"
proof -
  from register_try_fresh [OF assms(1-3)]
  obtain res r where 1: "register_try kc nc extra role m1 m2 e t req
            = Inr (res, t\<lparr>rows := rows t @ [r], serial := serial t + 1\<rparr>)"
    and 2: "cell r ''email'' = param (map_of (body req) ''email'')"
    by blast
  have "select_by_email (t\<lparr>rows := rows t @ [r], serial := serial t + 1\<rparr>)
      (param (map_of (body req') ''email'')) \<noteq> []"
    using 2 assms(4,5) by (simp add: select_by_email_appended)
  then have "register_try kc nc extra role m1 m2 e
      (t\<lparr>rows := rows t @ [r], serial := serial t + 1\<rparr>) req'
      = Inr (failure 400 m1, t\<lparr>rows := rows t @ [r], serial := serial t + 1\<rparr>)"
    by (rule register_try_conflict)
  with 1 show ?thesis by blast
qed

lemma registerUser_twice:
  assumes "select_by_email (users st) (param (map_of (body req) ''email'')) = []
        \<and> map_of (body req) ''password'' = Some (VText pw)
        \<and> param (map_of (body req) ''email'') \<noteq> VNull
        \<and> param (map_of (body req') ''email'') = param (map_of (body req) ''email'')"
  shows "registerUser e (snd (registerUser e st req)) req'
      = (failure 400 ''User already exists'', snd (registerUser e st req))"
proof -
  have n: "''full_name'' \<noteq> ''email''" by simp
  from assms register_try_twice [of "users st" req pw "''full_name''" req' "''user_id''"
      "[''phone'', ''address'', ''city'', ''state'', ''pincode'', ''date_of_birth'', ''gender'']"
      "''user''" "''User already exists''" "''User registered successfully''" e] n
  obtain res t' where "register_try ''user_id'' ''full_name''
      [''phone'', ''address'', ''city'', ''state'', ''pincode'', ''date_of_birth'', ''gender'']
      ''user'' ''User already exists'' ''User registered successfully'' e (users st) req
        = Inr (res, t')"
    and "register_try ''user_id'' ''full_name''
      [''phone'', ''address'', ''city'', ''state'', ''pincode'', ''date_of_birth'', ''gender'']
      ''user'' ''User already exists'' ''User registered successfully'' e t' req'
        = Inr (failure 400 ''User already exists'', t')"
    by blast
  then show ?thesis by (simp add: registerUser_def)
qed

lemma hospitalRegister_twice:
  assumes "select_by_email (hospitals st) (param (map_of (body req) ''email'')) = []
        \<and> map_of (body req) ''password'' = Some (VText pw)
        \<and> param (map_of (body req) ''email'') \<noteq> VNull
        \<and> param (map_of (body req') ''email'') = param (map_of (body req) ''email'')"
  shows "hospitalRegister e (snd (hospitalRegister e st req)) req'
      = (failure 400 ''Hospital already exists'', snd (hospitalRegister e st req))"
proof -
  have n: "''hospital_name'' \<noteq> ''email''" by simp
  from assms register_try_twice [of "hospitals st" req pw "''hospital_name''" req' "''hospital_id''"
      "[''phone'', ''address'', ''city'', ''state'', ''pincode'', ''registration_number'',
        ''hospital_type'']"
      "''hospital''" "''Hospital already exists''" "''Hospital registered successfully''" e] n
  obtain res t' where "register_try ''hospital_id'' ''hospital_name''
      [''phone'', ''address'', ''city'', ''state'', ''pincode'', ''registration_number'',
       ''hospital_type'']
      ''hospital'' ''Hospital already exists'' ''Hospital registered successfully'' e
      (hospitals st) req = Inr (res, t')"
    and "register_try ''hospital_id'' ''hospital_name''
      [''phone'', ''address'', ''city'', ''state'', ''pincode'', ''registration_number'',
       ''hospital_type'']
      ''hospital'' ''Hospital already exists'' ''Hospital registered successfully'' e t' req'
        = Inr (failure 400 ''Hospital already exists'', t')"
    by blast
  then show ?thesis by (simp add: hospitalRegister_def)
qed

lemma pharmacyRegister_twice:
  assumes "select_by_email (pharmacies st) (param (map_of (body req) ''email'')) = []
        \<and> map_of (body req) ''password'' = Some (VText pw)
        \<and> param (map_of (body req) ''email'') \<noteq> VNull
        \<and> param (map_of (body req') ''email'') = param (map_of (body req) ''email'')"
  shows "pharmacyRegister e (snd (pharmacyRegister e st req)) req'
      = (failure 400 ''Pharmacy already exists'', snd (pharmacyRegister e st req))"
proof -
  have n: "''pharmacy_name'' \<noteq> ''email''" by simp
  from assms register_try_twice [of "pharmacies st" req pw "''pharmacy_name''" req' "''pharmacy_id''"
      "[''phone'', ''address'', ''city'', ''state'', ''pincode'', ''license_number'',
        ''operating_hours'']"
      "''pharmacy''" "''Pharmacy already exists''" "''Pharmacy registered successfully''" e] n
  obtain res t' where "register_try ''pharmacy_id'' ''pharmacy_name''
      [''phone'', ''address'', ''city'', ''state'', ''pincode'', ''license_number'',
       ''operating_hours'']
      ''pharmacy'' ''Pharmacy already exists'' ''Pharmacy registered successfully'' e
      (pharmacies st) req = Inr (res, t')"
    and "register_try ''pharmacy_id'' ''pharmacy_name''
      [''phone'', ''address'', ''city'', ''state'', ''pincode'', ''license_number'',
       ''operating_hours'']
      ''pharmacy'' ''Pharmacy already exists'' ''Pharmacy registered successfully'' e t' req'
        = Inr (failure 400 ''Pharmacy already exists'', t')"
    by blast
  then show ?thesis by (simp add: pharmacyRegister_def)
qed

text \<open>
  C4. For each of the three register operations: the response depends on the registering
  role's own table only; when that table has a record with the email, the answer is 400
  and the store is unchanged; when it has none (whatever the other two tables hold) and
  the password is a string, the answer is 201 and exactly one row, carrying that email,
  is added to that table; registering again with the same email after that is answered
  400 and adds nothing.
\<close>

theorem register_conflict_per_role:
  "(users st = users st' \<longrightarrow> fst (registerUser e st req) = fst (registerUser e st' req))
   \<and> (hospitals st = hospitals st'
      \<longrightarrow> fst (hospitalRegister e st req) = fst (hospitalRegister e st' req))
   \<and> (pharmacies st = pharmacies st'
      \<longrightarrow> fst (pharmacyRegister e st req) = fst (pharmacyRegister e st' req))
   \<and> (select_by_email (users st) (param (map_of (body req) ''email'')) \<noteq> []
      \<longrightarrow> registerUser e st req = (failure 400 ''User already exists'', st))
   \<and> (select_by_email (hospitals st) (param (map_of (body req) ''email'')) \<noteq> []
      \<longrightarrow> hospitalRegister e st req = (failure 400 ''Hospital already exists'', st))
   \<and> (select_by_email (pharmacies st) (param (map_of (body req) ''email'')) \<noteq> []
      \<longrightarrow> pharmacyRegister e st req = (failure 400 ''Pharmacy already exists'', st))
   \<and> (select_by_email (users st) (param (map_of (body req) ''email'')) = []
        \<and> map_of (body req) ''password'' = Some (VText pw)
      \<longrightarrow> (\<exists>res r. registerUser e st req
                = (res, st\<lparr>users := (users st)\<lparr>rows := rows (users st) @ [r],
                                              serial := serial (users st) + 1\<rparr>\<rparr>)
             \<and> status res = 201 \<and> success res
             \<and> cell r ''email'' = param (map_of (body req) ''email'')))
   \<and> (select_by_email (hospitals st) (param (map_of (body req) ''email'')) = []
        \<and> map_of (body req) ''password'' = Some (VText pw)
      \<longrightarrow> (\<exists>res r. hospitalRegister e st req
                = (res, st\<lparr>hospitals := (hospitals st)\<lparr>rows := rows (hospitals st) @ [r],
                                              serial := serial (hospitals st) + 1\<rparr>\<rparr>)
             \<and> status res = 201 \<and> success res
             \<and> cell r ''email'' = param (map_of (body req) ''email'')))
   \<and> (select_by_email (pharmacies st) (param (map_of (body req) ''email'')) = []
        \<and> map_of (body req) ''password'' = Some (VText pw)
      \<longrightarrow> (\<exists>res r. pharmacyRegister e st req
                = (res, st\<lparr>pharmacies := (pharmacies st)\<lparr>rows := rows (pharmacies st) @ [r],
                                              serial := serial (pharmacies st) + 1\<rparr>\<rparr>)
             \<and> status res = 201 \<and> success res
             \<and> cell r ''email'' = param (map_of (body req) ''email'')))
   \<and> (select_by_email (users st) (param (map_of (body req) ''email'')) = []
        \<and> map_of (body req) ''password'' = Some (VText pw)
        \<and> param (map_of (body req) ''email'') \<noteq> VNull
        \<and> param (map_of (body req') ''email'') = param (map_of (body req) ''email'')
      \<longrightarrow> registerUser e (snd (registerUser e st req)) req'
          = (failure 400 ''User already exists'', snd (registerUser e st req)))
   \<and> (select_by_email (hospitals st) (param (map_of (body req) ''email'')) = []
        \<and> map_of (body req) ''password'' = Some (VText pw)
        \<and> param (map_of (body req) ''email'') \<noteq> VNull
        \<and> param (map_of (body req') ''email'') = param (map_of (body req) ''email'')
      \<longrightarrow> hospitalRegister e (snd (hospitalRegister e st req)) req'
          = (failure 400 ''Hospital already exists'', snd (hospitalRegister e st req)))
   \<and> (select_by_email (pharmacies st) (param (map_of (body req) ''email'')) = []
        \<and> map_of (body req) ''password'' = Some (VText pw)
        \<and> param (map_of (body req) ''email'') \<noteq> VNull
        \<and> param (map_of (body req') ''email'') = param (map_of (body req) ''email'')
      \<longrightarrow> pharmacyRegister e (snd (pharmacyRegister e st req)) req'
          = (failure 400 ''Pharmacy already exists'', snd (pharmacyRegister e st req)))"
proof (intro conjI impI)
  assume "users st = users st'"
  then show "fst (registerUser e st req) = fst (registerUser e st' req)"
    by (simp add: registerUser_def split: sum.splits prod.splits)
next
  assume "hospitals st = hospitals st'"
  then show "fst (hospitalRegister e st req) = fst (hospitalRegister e st' req)"
    by (simp add: hospitalRegister_def split: sum.splits prod.splits)
next
  assume "pharmacies st = pharmacies st'"
  then show "fst (pharmacyRegister e st req) = fst (pharmacyRegister e st' req)"
    by (simp add: pharmacyRegister_def split: sum.splits prod.splits)
next
  assume "select_by_email (users st) (param (map_of (body req) ''email'')) \<noteq> []"
  then show "registerUser e st req = (failure 400 ''User already exists'', st)"
    by (simp add: registerUser_def register_try_conflict)
next
  assume "select_by_email (hospitals st) (param (map_of (body req) ''email'')) \<noteq> []"
  then show "hospitalRegister e st req = (failure 400 ''Hospital already exists'', st)"
    by (simp add: hospitalRegister_def register_try_conflict)
next
  assume "select_by_email (pharmacies st) (param (map_of (body req) ''email'')) \<noteq> []"
  then show "pharmacyRegister e st req = (failure 400 ''Pharmacy already exists'', st)"
    by (simp add: pharmacyRegister_def register_try_conflict)
next
  assume a: "select_by_email (users st) (param (map_of (body req) ''email'')) = []
        \<and> map_of (body req) ''password'' = Some (VText pw)"
  have n: "''full_name'' \<noteq> ''email''" by simp
  from register_try_fresh [OF conjunct1 [OF a] conjunct2 [OF a] n]
  obtain res r where "register_try ''user_id'' ''full_name''
      [''phone'', ''address'', ''city'', ''state'', ''pincode'', ''date_of_birth'', ''gender'']
      ''user'' ''User already exists'' ''User registered successfully'' e (users st) req
      = Inr (res, (users st)\<lparr>rows := rows (users st) @ [r], serial := serial (users st) + 1\<rparr>)"
    and "status res = 201" and "success res"
    and "cell r ''email'' = param (map_of (body req) ''email'')"
    by blast
  then show "\<exists>res r. registerUser e st req
                = (res, st\<lparr>users := (users st)\<lparr>rows := rows (users st) @ [r],
                                              serial := serial (users st) + 1\<rparr>\<rparr>)
             \<and> status res = 201 \<and> success res
             \<and> cell r ''email'' = param (map_of (body req) ''email'')"
    by (intro exI [of _ res] exI [of _ r]) (simp add: registerUser_def)
next
  assume a: "select_by_email (hospitals st) (param (map_of (body req) ''email'')) = []
        \<and> map_of (body req) ''password'' = Some (VText pw)"
  have n: "''hospital_name'' \<noteq> ''email''" by simp
  from register_try_fresh [OF conjunct1 [OF a] conjunct2 [OF a] n]
  obtain res r where "register_try ''hospital_id'' ''hospital_name''
      [''phone'', ''address'', ''city'', ''state'', ''pincode'', ''registration_number'', ''hospital_type'']
      ''hospital'' ''Hospital already exists'' ''Hospital registered successfully'' e (hospitals st) req
      = Inr (res, (hospitals st)\<lparr>rows := rows (hospitals st) @ [r], serial := serial (hospitals st) + 1\<rparr>)"
    and "status res = 201" and "success res"
    and "cell r ''email'' = param (map_of (body req) ''email'')"
    by blast
  then show "\<exists>res r. hospitalRegister e st req
                = (res, st\<lparr>hospitals := (hospitals st)\<lparr>rows := rows (hospitals st) @ [r],
                                              serial := serial (hospitals st) + 1\<rparr>\<rparr>)
             \<and> status res = 201 \<and> success res
             \<and> cell r ''email'' = param (map_of (body req) ''email'')"
    by (intro exI [of _ res] exI [of _ r]) (simp add: hospitalRegister_def)
next
  assume a: "select_by_email (pharmacies st) (param (map_of (body req) ''email'')) = []
        \<and> map_of (body req) ''password'' = Some (VText pw)"
  have n: "''pharmacy_name'' \<noteq> ''email''" by simp
  from register_try_fresh [OF conjunct1 [OF a] conjunct2 [OF a] n]
  obtain res r where "register_try ''pharmacy_id'' ''pharmacy_name''
      [''phone'', ''address'', ''city'', ''state'', ''pincode'', ''license_number'', ''operating_hours'']
      ''pharmacy'' ''Pharmacy already exists'' ''Pharmacy registered successfully'' e (pharmacies st) req
      = Inr (res, (pharmacies st)\<lparr>rows := rows (pharmacies st) @ [r], serial := serial (pharmacies st) + 1\<rparr>)"
    and "status res = 201" and "success res"
    and "cell r ''email'' = param (map_of (body req) ''email'')"
    by blast
  then show "\<exists>res r. pharmacyRegister e st req
                = (res, st\<lparr>pharmacies := (pharmacies st)\<lparr>rows := rows (pharmacies st) @ [r],
                                              serial := serial (pharmacies st) + 1\<rparr>\<rparr>)
             \<and> status res = 201 \<and> success res
             \<and> cell r ''email'' = param (map_of (body req) ''email'')"
    by (intro exI [of _ res] exI [of _ r]) (simp add: pharmacyRegister_def)
next
  assume "select_by_email (users st) (param (map_of (body req) ''email'')) = []
        \<and> map_of (body req) ''password'' = Some (VText pw)
        \<and> param (map_of (body req) ''email'') \<noteq> VNull
        \<and> param (map_of (body req') ''email'') = param (map_of (body req) ''email'')"
  then show "registerUser e (snd (registerUser e st req)) req'
          = (failure 400 ''User already exists'', snd (registerUser e st req))"
    by (rule registerUser_twice)
next
  assume "select_by_email (hospitals st) (param (map_of (body req) ''email'')) = []
        \<and> map_of (body req) ''password'' = Some (VText pw)
        \<and> param (map_of (body req) ''email'') \<noteq> VNull
        \<and> param (map_of (body req') ''email'') = param (map_of (body req) ''email'')"
  then show "hospitalRegister e (snd (hospitalRegister e st req)) req'
          = (failure 400 ''Hospital already exists'', snd (hospitalRegister e st req))"
    by (rule hospitalRegister_twice)
next
  assume "select_by_email (pharmacies st) (param (map_of (body req) ''email'')) = []
        \<and> map_of (body req) ''password'' = Some (VText pw)
        \<and> param (map_of (body req) ''email'') \<noteq> VNull
        \<and> param (map_of (body req') ''email'') = param (map_of (body req) ''email'')"
  then show "pharmacyRegister e (snd (pharmacyRegister e st req)) req'
          = (failure 400 ''Pharmacy already exists'', snd (pharmacyRegister e st req))"
    by (rule pharmacyRegister_twice)
qed


theorem register_conflict_per_role_witness:
  "registerUser demo_env demo_store
      (demo_post [(''email'', VText ''asha@x.com''), (''password'', VText ''pw'')])
     = (failure 400 ''User already exists'', demo_store)
   \<and> hospitalRegister demo_env demo_store
      (demo_post [(''email'', VText ''a@x.com''), (''password'', VText ''pw'')])
     = (failure 400 ''Hospital already exists'', demo_store)
   \<and> pharmacyRegister demo_env demo_store
      (demo_post [(''email'', VText ''a@x.com''), (''password'', VText ''pw'')])
     = (failure 400 ''Pharmacy already exists'', demo_store)
   \<and> status (fst (registerUser demo_env demo_store
      (demo_post [(''email'', VText ''a@x.com''), (''password'', VText ''pw'')]))) = 201
   \<and> status (fst (hospitalRegister demo_env demo_store
      (demo_post [(''email'', VText ''asha@x.com''), (''password'', VText ''pw'')]))) = 201
   \<and> status (fst (pharmacyRegister demo_env demo_store
      (demo_post [(''email'', VText ''asha@x.com''), (''password'', VText ''pw'')]))) = 201
   \<and> registerUser demo_env
        (snd (registerUser demo_env demo_store
           (demo_post [(''email'', VText ''a@x.com''), (''password'', VText ''pw'')])))
        (demo_post [(''email'', VText ''a@x.com''), (''password'', VText ''pw'')])
     = (failure 400 ''User already exists'',
        snd (registerUser demo_env demo_store
           (demo_post [(''email'', VText ''a@x.com''), (''password'', VText ''pw'')])))"
proof -
  let ?r = "\<lambda>m. demo_post [(''email'', VText m), (''password'', VText ''pw'')]"
  have e: "param (map_of (body (?r m)) ''email'') = VText m" for m
    by (simp add: demo_post_def demo_request_def param_def)
  have p: "map_of (body (?r m)) ''password'' = Some (VText ''pw'')" for m
    by (simp add: demo_post_def demo_request_def)
  note t = register_conflict_per_role [where e = demo_env and st = demo_store
      and st' = demo_store and pw = "''pw''"]
  have a: "registerUser demo_env demo_store (?r ''asha@x.com'')
      = (failure 400 ''User already exists'', demo_store)"
    "status (fst (hospitalRegister demo_env demo_store (?r ''asha@x.com''))) = 201"
    "status (fst (pharmacyRegister demo_env demo_store (?r ''asha@x.com''))) = 201"
    using t [where req = "?r ''asha@x.com''" and req' = "?r ''asha@x.com''"] e p demo_select_users demo_select_hospitals
      demo_select_pharmacies
    by auto
  have b: "hospitalRegister demo_env demo_store (?r ''a@x.com'')
      = (failure 400 ''Hospital already exists'', demo_store)"
    "pharmacyRegister demo_env demo_store (?r ''a@x.com'')
      = (failure 400 ''Pharmacy already exists'', demo_store)"
    "status (fst (registerUser demo_env demo_store (?r ''a@x.com''))) = 201"
    using t [where req = "?r ''a@x.com''" and req' = "?r ''a@x.com''"] e p demo_select_users demo_select_hospitals
      demo_select_pharmacies
    by auto
  have c: "registerUser demo_env (snd (registerUser demo_env demo_store (?r ''a@x.com'')))
        (?r ''a@x.com'')
     = (failure 400 ''User already exists'',
        snd (registerUser demo_env demo_store (?r ''a@x.com'')))"
    using t [where req = "?r ''a@x.com''" and req' = "?r ''a@x.com''"] e p demo_select_users
    by auto
  show ?thesis using a b c by simp
qed

section \<open>Owned resources: properties\<close>

lemma filter_none_rest: "filter P xs = [] \<Longrightarrow> filter (\<lambda>x. \<not> P x) xs = xs"
  by (induction xs) (auto split: if_splits)

lemma update_try_missing:
  "user req = Some u
   \<Longrightarrow> filter (owned kc oc (param (params req kc)) (tok_id u)) (rows t) = []
   \<Longrightarrow> update_try tbl kc oc m1 m2 eng t req = Inr (failure 404 m1, t)"
  by (simp add: update_try_def Let_def)

lemma delete_try_missing:
  "user req = Some u
   \<Longrightarrow> filter (owned kc oc (param (params req kc)) (tok_id u)) (rows t) = []
   \<Longrightarrow> delete_try kc oc m1 m2 t req = Inr (failure 404 m1, t)"
  by (simp add: delete_try_def delete_owned_def filter_none_rest)

lemma guarded_pass:
  "header_token req = Some t \<Longrightarrow> t \<noteq> [] \<Longrightarrow> jwt_verify e t = Some dec
   \<Longrightarrow> userType dec = role
   \<Longrightarrow> guarded role e handler st req = handler st (req\<lparr>user := Some dec\<rparr>)"
  by (simp add: guarded_def authMiddleware_def auth_try_def js_truthy_def Let_def)

text \<open>
  C1. On the four routes that update or delete an owned resource, a request that passes
  the guard with a token of the owning role, and whose key and owner match no row
  together (also when a row with that key exists under another owner), is answered 404
  with the same ``not found'' message in either case, and the store is unchanged: no
  403 and nothing else tells the two cases apart.
\<close>

theorem owned_miss_not_found:
  "(header_token req = Some t \<and> t \<noteq> [] \<and> jwt_verify e t = Some dec
      \<and> userType dec = ''hospital''
      \<and> filter (owned ''doctor_id'' ''hospital_id'' (param (params req ''doctor_id''))
           (tok_id dec)) (rows (doctors st)) = []
    \<longrightarrow> put_doctor e eng st req = (failure 404 ''Doctor not found'', st)
        \<and> delete_doctor e st req = (failure 404 ''Doctor not found'', st))
   \<and> (header_token req = Some t \<and> t \<noteq> [] \<and> jwt_verify e t = Some dec
      \<and> userType dec = ''pharmacy''
      \<and> filter (owned ''medicine_id'' ''pharmacy_id'' (param (params req ''medicine_id''))
           (tok_id dec)) (rows (medicines st)) = []
    \<longrightarrow> put_medicine e eng st req = (failure 404 ''Medicine not found'', st)
        \<and> delete_medicine e st req = (failure 404 ''Medicine not found'', st))"
  by (simp add: put_doctor_def delete_doctor_def put_medicine_def delete_medicine_def
      guarded_pass updateDoctor_def deleteDoctor_def updateMedicine_def deleteMedicine_def
      update_try_missing delete_try_missing)

lemma demo_tokens:
  "header_token (demo_owned ''Bearer tok-h1'' kc k b) = Some ''tok-h1''"
  "header_token (demo_owned ''Bearer tok-p1'' kc k b) = Some ''tok-p1''"
  "jwt_verify demo_env ''tok-h1'' = Some \<lparr>tok_id = VInt 1, userType = ''hospital''\<rparr>"
  "jwt_verify demo_env ''tok-p1'' = Some \<lparr>tok_id = VInt 1, userType = ''pharmacy''\<rparr>"
  "param (params (demo_owned h kc k b) kc) = VInt k"
  by (simp_all add: demo_owned_def demo_request_def header_token_def demo_env_def
      demo_verify_def param_def)

lemma demo_owned_rows:
  "filter (owned ''doctor_id'' ''hospital_id'' (VInt 2) (VInt 1)) (rows (doctors demo_store)) = []"
  "filter (owned ''doctor_id'' ''hospital_id'' (VInt 1) (VInt 1)) (rows (doctors demo_store)) \<noteq> []"
  "filter (owned ''medicine_id'' ''pharmacy_id'' (VInt 2) (VInt 1)) (rows (medicines demo_store)) = []"
  "filter (owned ''medicine_id'' ''pharmacy_id'' (VInt 1) (VInt 1)) (rows (medicines demo_store)) \<noteq> []"
  by (simp_all add: owned_def sql_eq_def cell_def demo_store_def demo_doctors_def
      demo_medicines_def)

theorem owned_miss_not_found_witness:
  "put_doctor demo_env demo_engine demo_store
      (demo_owned ''Bearer tok-h1'' ''doctor_id'' 2 [(''full_name'', VText ''X'')])
     = (failure 404 ''Doctor not found'', demo_store)
   \<and> delete_doctor demo_env demo_store (demo_owned ''Bearer tok-h1'' ''doctor_id'' 2 [])
     = (failure 404 ''Doctor not found'', demo_store)
   \<and> put_medicine demo_env demo_engine demo_store
      (demo_owned ''Bearer tok-p1'' ''medicine_id'' 2 [(''price'', VInt 3)])
     = (failure 404 ''Medicine not found'', demo_store)
   \<and> delete_medicine demo_env demo_store (demo_owned ''Bearer tok-p1'' ''medicine_id'' 2 [])
     = (failure 404 ''Medicine not found'', demo_store)"
proof -
  note t = owned_miss_not_found [where e = demo_env and st = demo_store and eng = demo_engine]
  have d: "put_doctor demo_env demo_engine demo_store
      (demo_owned ''Bearer tok-h1'' ''doctor_id'' 2 [(''full_name'', VText ''X'')])
     = (failure 404 ''Doctor not found'', demo_store)"
    using t [where req = "demo_owned ''Bearer tok-h1'' ''doctor_id'' 2 [(''full_name'', VText ''X'')]"
        and t = "''tok-h1''" and dec = "\<lparr>tok_id = VInt 1, userType = ''hospital''\<rparr>"]
      demo_tokens demo_owned_rows
    by simp
  have d': "delete_doctor demo_env demo_store (demo_owned ''Bearer tok-h1'' ''doctor_id'' 2 [])
     = (failure 404 ''Doctor not found'', demo_store)"
    using t [where req = "demo_owned ''Bearer tok-h1'' ''doctor_id'' 2 []"
        and t = "''tok-h1''" and dec = "\<lparr>tok_id = VInt 1, userType = ''hospital''\<rparr>"]
      demo_tokens demo_owned_rows
    by simp
  have m: "put_medicine demo_env demo_engine demo_store
      (demo_owned ''Bearer tok-p1'' ''medicine_id'' 2 [(''price'', VInt 3)])
     = (failure 404 ''Medicine not found'', demo_store)"
    using t [where req = "demo_owned ''Bearer tok-p1'' ''medicine_id'' 2 [(''price'', VInt 3)]"
        and t = "''tok-p1''" and dec = "\<lparr>tok_id = VInt 1, userType = ''pharmacy''\<rparr>"]
      demo_tokens demo_owned_rows
    by simp
  have m': "delete_medicine demo_env demo_store (demo_owned ''Bearer tok-p1'' ''medicine_id'' 2 [])
     = (failure 404 ''Medicine not found'', demo_store)"
    using t [where req = "demo_owned ''Bearer tok-p1'' ''medicine_id'' 2 []"
        and t = "''tok-p1''" and dec = "\<lparr>tok_id = VInt 1, userType = ''pharmacy''\<rparr>"]
      demo_tokens demo_owned_rows
    by simp
  show ?thesis using d d' m m' by simp
qed

lemma string_of_nat_small: "n < 10 \<Longrightarrow> string_of_nat n = [digit_char n]"
  by (simp add: string_of_nat.simps)

lemma setClause_nth:
  "setClause updates
     = js_join '', '' (map (\<lambda>i. fst (updates ! i) @ '' = $'' @ string_of_nat (i + 1))
         [0..<length updates])"
proof -
  have "map (\<lambda>(field, index). field @ '' = $'' @ string_of_nat (index + 1))
          (zip (map fst updates) [0..<length (map fst updates)])
        = map (\<lambda>i. fst (updates ! i) @ '' = $'' @ string_of_nat (i + 1))
            [0..<length updates]"
    by (rule nth_equalityI) simp_all
  then show ?thesis by (simp add: setClause_def Let_def)
qed

lemma setClause_keys: "map fst u1 = map fst u2 \<Longrightarrow> setClause u1 = setClause u2"
  by (simp add: setClause_def Let_def)

lemma update_text_keys:
  "map fst u1 = map fst u2 \<Longrightarrow> update_text tbl kc oc u1 = update_text tbl kc oc u2"
  using setClause_keys [of u1 u2] map_eq_imp_length_eq [of fst u1 fst u2]
  by (simp add: update_text_def Let_def)

text \<open>
  C8. The dynamic update interpolates the keys of the patch into the text of the
  statement: the \<open>i\<close>-th assignment is \<open>key = $(i+1)\<close>, the assignments are joined by
  commas. The values of the patch are the first \<open>n\<close> parameters in the order of the
  keys, followed by the key of the row at position \<open>n + 1\<close> and the owner at position
  \<open>n + 2\<close>, the two placeholders of the \<^verbatim>\<open>WHERE\<close> clause. The text depends on the keys
  only, never on the values. Both update handlers pass exactly this text and these
  parameters to the pool once the row is found.
\<close>

theorem update_statement_shape:
  "setClause updates
     = js_join '', '' (map (\<lambda>i. fst (updates ! i) @ '' = $'' @ string_of_nat (i + 1))
         [0..<length updates])
   \<and> update_text tbl kc oc updates
     = ''UPDATE '' @ tbl @ '' SET '' @ setClause updates
       @ '' WHERE '' @ kc @ '' = $'' @ string_of_nat (length updates + 1)
       @ '' AND '' @ oc @ '' = $'' @ string_of_nat (length updates + 2) @ '' RETURNING *''
   \<and> length (update_params updates k ow) = length updates + 2
   \<and> (\<forall>i < length updates. update_params updates k ow ! i = snd (updates ! i))
   \<and> update_params updates k ow ! length updates = k
   \<and> update_params updates k ow ! (length updates + 1) = ow
   \<and> (map fst updates = map fst updates'
      \<longrightarrow> update_text tbl kc oc updates = update_text tbl kc oc updates')
   \<and> (user req = Some u
        \<and> filter (owned ''doctor_id'' ''hospital_id'' (param (params req ''doctor_id''))
             (tok_id u)) (rows (doctors st)) \<noteq> []
      \<longrightarrow> updateDoctor eng st req
          = (case pool_query_update eng ''doctors''
                    (update_text ''doctors'' ''doctor_id'' ''hospital_id'' (body req))
                    (update_params (body req) (param (params req ''doctor_id'')) (tok_id u))
                    (doctors st) of
               Inl err \<Rightarrow> (server_error, st)
             | Inr (returned, t') \<Rightarrow>
                 (\<lparr>status = 200, success = True, message = Some ''Doctor updated successfully'',
                   count = None, data = Some (DataRow (js_index returned 0))\<rparr>,
                  st\<lparr>doctors := t'\<rparr>)))
   \<and> (user req = Some u
        \<and> filter (owned ''medicine_id'' ''pharmacy_id'' (param (params req ''medicine_id''))
             (tok_id u)) (rows (medicines st)) \<noteq> []
      \<longrightarrow> updateMedicine eng st req
          = (case pool_query_update eng ''medicines''
                    (update_text ''medicines'' ''medicine_id'' ''pharmacy_id'' (body req))
                    (update_params (body req) (param (params req ''medicine_id'')) (tok_id u))
                    (medicines st) of
               Inl err \<Rightarrow> (server_error, st)
             | Inr (returned, t') \<Rightarrow>
                 (\<lparr>status = 200, success = True, message = Some ''Medicine updated successfully'',
                   count = None, data = Some (DataRow (js_index returned 0))\<rparr>,
                  st\<lparr>medicines := t'\<rparr>)))"
proof (intro conjI impI allI)
  show "setClause updates
     = js_join '', '' (map (\<lambda>i. fst (updates ! i) @ '' = $'' @ string_of_nat (i + 1))
         [0..<length updates])"
    by (rule setClause_nth)
  show "update_text tbl kc oc updates
     = ''UPDATE '' @ tbl @ '' SET '' @ setClause updates
       @ '' WHERE '' @ kc @ '' = $'' @ string_of_nat (length updates + 1)
       @ '' AND '' @ oc @ '' = $'' @ string_of_nat (length updates + 2) @ '' RETURNING *''"
    by (simp add: update_text_def Let_def)
  show "length (update_params updates k ow) = length updates + 2"
    by (simp add: update_params_def)
  show "update_params updates k ow ! i = snd (updates ! i)" if "i < length updates" for i
    using that by (simp add: update_params_def nth_append)
  show "update_params updates k ow ! length updates = k"
    by (simp add: update_params_def nth_append)
  show "update_params updates k ow ! (length updates + 1) = ow"
    by (simp add: update_params_def nth_append)
  show "update_text tbl kc oc updates = update_text tbl kc oc updates'"
    if "map fst updates = map fst updates'"
    using that by (rule update_text_keys)
next
  assume "user req = Some u
        \<and> filter (owned ''doctor_id'' ''hospital_id'' (param (params req ''doctor_id''))
             (tok_id u)) (rows (doctors st)) \<noteq> []"
  then show "updateDoctor eng st req
          = (case pool_query_update eng ''doctors''
                    (update_text ''doctors'' ''doctor_id'' ''hospital_id'' (body req))
                    (update_params (body req) (param (params req ''doctor_id'')) (tok_id u))
                    (doctors st) of
               Inl err \<Rightarrow> (server_error, st)
             | Inr (returned, t') \<Rightarrow>
                 (\<lparr>status = 200, success = True, message = Some ''Doctor updated successfully'',
                   count = None, data = Some (DataRow (js_index returned 0))\<rparr>,
                  st\<lparr>doctors := t'\<rparr>))"
    by (simp add: updateDoctor_def update_try_def Let_def split: sum.splits prod.splits)
next
  assume "user req = Some u
        \<and> filter (owned ''medicine_id'' ''pharmacy_id'' (param (params req ''medicine_id''))
             (tok_id u)) (rows (medicines st)) \<noteq> []"
  then show "updateMedicine eng st req
          = (case pool_query_update eng ''medicines''
                    (update_text ''medicines'' ''medicine_id'' ''pharmacy_id'' (body req))
                    (update_params (body req) (param (params req ''medicine_id'')) (tok_id u))
                    (medicines st) of
               Inl err \<Rightarrow> (server_error, st)
             | Inr (returned, t') \<Rightarrow>
                 (\<lparr>status = 200, success = True, message = Some ''Medicine updated successfully'',
                   count = None, data = Some (DataRow (js_index returned 0))\<rparr>,
                  st\<lparr>medicines := t'\<rparr>))"
    by (simp add: updateMedicine_def update_try_def Let_def split: sum.splits prod.splits)
qed


theorem update_statement_shape_witness:
  "update_text ''doctors'' ''doctor_id'' ''hospital_id''
      [(''full_name'', VText ''Dr. Rao''), (''is_available'', VBool False)]
     = ''UPDATE doctors SET full_name = $1, is_available = $2 WHERE doctor_id = $3 AND hospital_id = $4 RETURNING *''
   \<and> update_params [(''full_name'', VText ''Dr. Rao''), (''is_available'', VBool False)]
        (VInt 1) (VInt 1) ! 0 = VText ''Dr. Rao''
   \<and> update_params [(''full_name'', VText ''Dr. Rao''), (''is_available'', VBool False)]
        (VInt 1) (VInt 1) ! 1 = VBool False
   \<and> update_params [(''full_name'', VText ''Dr. Rao''), (''is_available'', VBool False)]
        (VInt 1) (VInt 1) ! 2 = VInt 1
   \<and> update_text ''doctors'' ''doctor_id'' ''hospital_id''
        [(''full_name'', VText ''Dr. Rao''), (''is_available'', VBool False)]
     = update_text ''doctors'' ''doctor_id'' ''hospital_id''
        [(''full_name'', VText ''1; DROP TABLE doctors''), (''is_available'', VBool True)]
   \<and> status (fst (updateDoctor demo_engine demo_store
        ((demo_owned ''Bearer tok-h1'' ''doctor_id'' 1 [(''full_name'', VText ''Dr. Rao'')])
           \<lparr>user := Some \<lparr>tok_id = VInt 1, userType = ''hospital''\<rparr>\<rparr>))) = 200
   \<and> status (fst (updateMedicine demo_engine demo_store
        ((demo_owned ''Bearer tok-p1'' ''medicine_id'' 1 [(''price'', VInt 3)])
           \<lparr>user := Some \<lparr>tok_id = VInt 1, userType = ''pharmacy''\<rparr>\<rparr>))) = 200"
proof -
  let ?u = "[(''full_name'', VText ''Dr. Rao''), (''is_available'', VBool False)]"
  let ?u' = "[(''full_name'', VText ''1; DROP TABLE doctors''), (''is_available'', VBool True)]"
  let ?rd = "(demo_owned ''Bearer tok-h1'' ''doctor_id'' 1 [(''full_name'', VText ''Dr. Rao'')])
           \<lparr>user := Some \<lparr>tok_id = VInt 1, userType = ''hospital''\<rparr>\<rparr>"
  let ?rm = "(demo_owned ''Bearer tok-p1'' ''medicine_id'' 1 [(''price'', VInt 3)])
           \<lparr>user := Some \<lparr>tok_id = VInt 1, userType = ''pharmacy''\<rparr>\<rparr>"
  note t = update_statement_shape [where updates = ?u and updates' = ?u' and tbl = "''doctors''"
      and kc = "''doctor_id''" and oc = "''hospital_id''" and k = "VInt 1" and ow = "VInt 1"
      and st = demo_store and eng = demo_engine and req = ?rd
      and u = "\<lparr>tok_id = VInt 1, userType = ''hospital''\<rparr>"]
  have n: "string_of_nat (Suc 0) = ''1''" "string_of_nat (Suc (Suc 0)) = ''2''"
    "string_of_nat (Suc (Suc (Suc 0))) = ''3''" "string_of_nat (Suc (Suc (Suc (Suc 0)))) = ''4''"
    by (simp_all add: string_of_nat_small digit_char_def)
  have a: "update_text ''doctors'' ''doctor_id'' ''hospital_id'' ?u
     = ''UPDATE doctors SET full_name = $1, is_available = $2 WHERE doctor_id = $3 AND hospital_id = $4 RETURNING *''"
    using t by (simp add: n upt_rec)
  have b: "update_params ?u (VInt 1) (VInt 1) ! 0 = VText ''Dr. Rao''"
    "update_params ?u (VInt 1) (VInt 1) ! 1 = VBool False"
    "update_params ?u (VInt 1) (VInt 1) ! 2 = VInt 1"
    using t by (simp_all add: numeral_2_eq_2)
  have c: "update_text ''doctors'' ''doctor_id'' ''hospital_id'' ?u
     = update_text ''doctors'' ''doctor_id'' ''hospital_id'' ?u'"
  proof -
    have k: "map fst ?u = map fst ?u'" by simp
    from t have "map fst ?u = map fst ?u'
        \<longrightarrow> update_text ''doctors'' ''doctor_id'' ''hospital_id'' ?u
          = update_text ''doctors'' ''doctor_id'' ''hospital_id'' ?u'"
      by (elim conjE)
    with k show ?thesis by (rule rev_mp)
  qed
  have ud: "user ?rd = Some \<lparr>tok_id = VInt 1, userType = ''hospital''\<rparr>"
    and um: "user ?rm = Some \<lparr>tok_id = VInt 1, userType = ''pharmacy''\<rparr>"
    by simp_all
  have pd: "param (params ?rd ''doctor_id'') = VInt 1"
    and pm: "param (params ?rm ''medicine_id'') = VInt 1"
    by (simp_all add: demo_owned_def demo_request_def param_def)
  have nd: "\<not> no_assignment ''doctors''
      (update_text ''doctors'' ''doctor_id'' ''hospital_id'' (body ?rd))"
    and nm: "\<not> no_assignment ''medicines''
      (update_text ''medicines'' ''medicine_id'' ''pharmacy_id'' (body ?rm))"
    by (simp_all add: no_assignment_def update_text_def setClause_def Let_def demo_owned_def
        demo_request_def)
  have d: "status (fst (updateDoctor demo_engine demo_store ?rd)) = 200"
    using t ud pd nd demo_owned_rows
    by (simp add: pool_query_update_def demo_engine_def)
  have m: "status (fst (updateMedicine demo_engine demo_store ?rm)) = 200"
    using update_statement_shape [where st = demo_store and eng = demo_engine and req = ?rm
        and u = "\<lparr>tok_id = VInt 1, userType = ''pharmacy''\<rparr>"] um pm nm demo_owned_rows
    by (simp add: pool_query_update_def demo_engine_def)
  show ?thesis using a b c d m by simp
qed

lemma setClause_empty: "setClause [] = []"
  by (simp add: setClause_def)

lemma no_assignment_empty: "no_assignment tbl (update_text tbl kc oc [])"
  by (simp add: no_assignment_def update_text_def setClause_empty)

lemma update_try_empty:
  "body req = [] \<Longrightarrow> user req = Some u
   \<Longrightarrow> filter (owned kc oc (param (params req kc)) (tok_id u)) (rows t) \<noteq> []
   \<Longrightarrow> update_try tbl kc oc m1 m2 eng t req = Inl SqlError"
  by (simp add: update_try_def Let_def pool_query_update_def no_assignment_empty)

lemma update_try_empty_any:
  "body req = [] \<Longrightarrow>
   update_try tbl kc oc m1 m2 eng t req = Inl SqlError
   \<or> update_try tbl kc oc m1 m2 eng t req = Inl TypeError
   \<or> update_try tbl kc oc m1 m2 eng t req = Inr (failure 404 m1, t)"
  by (simp add: update_try_def Let_def pool_query_update_def no_assignment_empty
      split: option.splits)

lemma guarded_cases:
  "(\<exists>s m. guarded role e handler st req = (failure s m, st))
   \<or> (\<exists>dec. guarded role e handler st req = handler st (req\<lparr>user := Some dec\<rparr>))"
  by (auto simp: guarded_def authMiddleware_def auth_try_def Let_def
      split: option.splits sum.splits)

lemma empty_patch_never_succeeds:
  assumes "body req = []"
  shows "\<not> success (fst (guarded role e (updateDoctor eng) st req))
      \<and> data (fst (guarded role e (updateDoctor eng) st req)) = None
      \<and> snd (guarded role e (updateDoctor eng) st req) = st"
    and "\<not> success (fst (guarded role e (updateMedicine eng) st req))
      \<and> data (fst (guarded role e (updateMedicine eng) st req)) = None
      \<and> snd (guarded role e (updateMedicine eng) st req) = st"
proof -
  have b: "body (req\<lparr>user := Some dec\<rparr>) = []" for dec
    using assms by simp
  have d: "\<not> success (fst (updateDoctor eng st r)) \<and> data (fst (updateDoctor eng st r)) = None
      \<and> snd (updateDoctor eng st r) = st" if "body r = []" for r
    using update_try_empty_any [OF that, of "''doctors''" "''doctor_id''" "''hospital_id''"
        "''Doctor not found''" "''Doctor updated successfully''" eng "doctors st"]
    by (auto simp: updateDoctor_def failure_def server_error_def)
  have m: "\<not> success (fst (updateMedicine eng st r)) \<and> data (fst (updateMedicine eng st r)) = None
      \<and> snd (updateMedicine eng st r) = st" if "body r = []" for r
    using update_try_empty_any [OF that, of "''medicines''" "''medicine_id''" "''pharmacy_id''"
        "''Medicine not found''" "''Medicine updated successfully''" eng "medicines st"]
    by (auto simp: updateMedicine_def failure_def server_error_def)
  show "\<not> success (fst (guarded role e (updateDoctor eng) st req))
      \<and> data (fst (guarded role e (updateDoctor eng) st req)) = None
      \<and> snd (guarded role e (updateDoctor eng) st req) = st"
    using guarded_cases [of role e "updateDoctor eng" st req] d [OF b]
    by (auto simp: failure_def)
  show "\<not> success (fst (guarded role e (updateMedicine eng) st req))
      \<and> data (fst (guarded role e (updateMedicine eng) st req)) = None
      \<and> snd (guarded role e (updateMedicine eng) st req) = st"
    using guarded_cases [of role e "updateMedicine eng" st req] m [OF b]
    by (auto simp: failure_def)
qed

text \<open>
  C9. An update whose patch is empty never succeeds and never returns a row, and the
  store is unchanged; when the caller holds a token of the owning role and the row
  exists, the statement built has an empty \<^verbatim>\<open>SET\<close> list, its execution fails whatever
  the engine, and the answer is 500 ``Server error''.
\<close>

theorem empty_patch_server_error:
  "body req = [] \<longrightarrow>
     setClause (body req) = []
     \<and> update_text ''doctors'' ''doctor_id'' ''hospital_id'' (body req)
         = ''UPDATE doctors SET  WHERE doctor_id = $1 AND hospital_id = $2 RETURNING *''
     \<and> update_text ''medicines'' ''medicine_id'' ''pharmacy_id'' (body req)
         = ''UPDATE medicines SET  WHERE medicine_id = $1 AND pharmacy_id = $2 RETURNING *''
     \<and> pool_query_update eng ''doctors''
           (update_text ''doctors'' ''doctor_id'' ''hospital_id'' (body req)) ps tb = Inl SqlError
     \<and> pool_query_update eng ''medicines''
           (update_text ''medicines'' ''medicine_id'' ''pharmacy_id'' (body req)) ps tb = Inl SqlError
     \<and> (header_token req = Some t \<and> t \<noteq> [] \<and> jwt_verify e t = Some dec
          \<and> userType dec = ''hospital''
          \<and> filter (owned ''doctor_id'' ''hospital_id'' (param (params req ''doctor_id''))
               (tok_id dec)) (rows (doctors st)) \<noteq> []
        \<longrightarrow> put_doctor e eng st req = (failure 500 ''Server error'', st))
     \<and> (header_token req = Some t \<and> t \<noteq> [] \<and> jwt_verify e t = Some dec
          \<and> userType dec = ''pharmacy''
          \<and> filter (owned ''medicine_id'' ''pharmacy_id'' (param (params req ''medicine_id''))
               (tok_id dec)) (rows (medicines st)) \<noteq> []
        \<longrightarrow> put_medicine e eng st req = (failure 500 ''Server error'', st))
     \<and> \<not> success (fst (put_doctor e eng st req)) \<and> data (fst (put_doctor e eng st req)) = None
     \<and> snd (put_doctor e eng st req) = st
     \<and> \<not> success (fst (put_medicine e eng st req)) \<and> data (fst (put_medicine e eng st req)) = None
     \<and> snd (put_medicine e eng st req) = st"
proof
  assume b: "body req = []"
  have 1: "setClause (body req) = []"
    using b by (simp add: setClause_empty)
  have 2: "update_text ''doctors'' ''doctor_id'' ''hospital_id'' (body req)
         = ''UPDATE doctors SET  WHERE doctor_id = $1 AND hospital_id = $2 RETURNING *''"
    "update_text ''medicines'' ''medicine_id'' ''pharmacy_id'' (body req)
         = ''UPDATE medicines SET  WHERE medicine_id = $1 AND pharmacy_id = $2 RETURNING *''"
    using b by (simp_all add: update_text_def setClause_empty string_of_nat_small digit_char_def)
  have 3: "pool_query_update eng ''doctors''
           (update_text ''doctors'' ''doctor_id'' ''hospital_id'' (body req)) ps tb = Inl SqlError"
    "pool_query_update eng ''medicines''
           (update_text ''medicines'' ''medicine_id'' ''pharmacy_id'' (body req)) ps tb = Inl SqlError"
    using b by (simp_all add: pool_query_update_def no_assignment_empty)
  have 4: "put_doctor e eng st req = (failure 500 ''Server error'', st)"
    if "header_token req = Some t \<and> t \<noteq> [] \<and> jwt_verify e t = Some dec
          \<and> userType dec = ''hospital''
          \<and> filter (owned ''doctor_id'' ''hospital_id'' (param (params req ''doctor_id''))
               (tok_id dec)) (rows (doctors st)) \<noteq> []"
    using that b
    by (simp add: put_doctor_def guarded_pass updateDoctor_def update_try_empty server_error_def)
  have 5: "put_medicine e eng st req = (failure 500 ''Server error'', st)"
    if "header_token req = Some t \<and> t \<noteq> [] \<and> jwt_verify e t = Some dec
          \<and> userType dec = ''pharmacy''
          \<and> filter (owned ''medicine_id'' ''pharmacy_id'' (param (params req ''medicine_id''))
               (tok_id dec)) (rows (medicines st)) \<noteq> []"
    using that b
    by (simp add: put_medicine_def guarded_pass updateMedicine_def update_try_empty server_error_def)
  note 6 = empty_patch_never_succeeds [OF b, of "''hospital''" e eng st, folded put_doctor_def]
  note 7 = empty_patch_never_succeeds [OF b, of "''pharmacy''" e eng st, folded put_medicine_def]
  show "setClause (body req) = []
     \<and> update_text ''doctors'' ''doctor_id'' ''hospital_id'' (body req)
         = ''UPDATE doctors SET  WHERE doctor_id = $1 AND hospital_id = $2 RETURNING *''
     \<and> update_text ''medicines'' ''medicine_id'' ''pharmacy_id'' (body req)
         = ''UPDATE medicines SET  WHERE medicine_id = $1 AND pharmacy_id = $2 RETURNING *''
     \<and> pool_query_update eng ''doctors''
           (update_text ''doctors'' ''doctor_id'' ''hospital_id'' (body req)) ps tb = Inl SqlError
     \<and> pool_query_update eng ''medicines''
           (update_text ''medicines'' ''medicine_id'' ''pharmacy_id'' (body req)) ps tb = Inl SqlError
     \<and> (header_token req = Some t \<and> t \<noteq> [] \<and> jwt_verify e t = Some dec
          \<and> userType dec = ''hospital''
          \<and> filter (owned ''doctor_id'' ''hospital_id'' (param (params req ''doctor_id''))
               (tok_id dec)) (rows (doctors st)) \<noteq> []
        \<longrightarrow> put_doctor e eng st req = (failure 500 ''Server error'', st))
     \<and> (header_token req = Some t \<and> t \<noteq> [] \<and> jwt_verify e t = Some dec
          \<and> userType dec = ''pharmacy''
          \<and> filter (owned ''medicine_id'' ''pharmacy_id'' (param (params req ''medicine_id''))
               (tok_id dec)) (rows (medicines st)) \<noteq> []
        \<longrightarrow> put_medicine e eng st req = (failure 500 ''Server error'', st))
     \<and> \<not> success (fst (put_doctor e eng st req)) \<and> data (fst (put_doctor e eng st req)) = None
     \<and> snd (put_doctor e eng st req) = st
     \<and> \<not> success (fst (put_medicine e eng st req)) \<and> data (fst (put_medicine e eng st req)) = None
     \<and> snd (put_medicine e eng st req) = st"
    using 1 2 3 4 5 6(1) 7(2) by blast
qed

theorem empty_patch_server_error_witness:
  "body (demo_owned ''Bearer tok-h1'' ''doctor_id'' 1 []) = []
   \<and> filter (owned ''doctor_id'' ''hospital_id'' (VInt 1) (VInt 1)) (rows (doctors demo_store)) \<noteq> []
   \<and> put_doctor demo_env demo_engine demo_store (demo_owned ''Bearer tok-h1'' ''doctor_id'' 1 [])
       = (failure 500 ''Server error'', demo_store)
   \<and> filter (owned ''medicine_id'' ''pharmacy_id'' (VInt 1) (VInt 1)) (rows (medicines demo_store)) \<noteq> []
   \<and> put_medicine demo_env demo_engine demo_store (demo_owned ''Bearer tok-p1'' ''medicine_id'' 1 [])
       = (failure 500 ''Server error'', demo_store)"
proof -
  have b: "body (demo_owned h kc k []) = []" for h kc k
    by (simp add: demo_owned_def demo_request_def)
  have d: "put_doctor demo_env demo_engine demo_store (demo_owned ''Bearer tok-h1'' ''doctor_id'' 1 [])
       = (failure 500 ''Server error'', demo_store)"
    using empty_patch_server_error [where req = "demo_owned ''Bearer tok-h1'' ''doctor_id'' 1 []"
        and e = demo_env and eng = demo_engine and st = demo_store and t = "''tok-h1''"
        and dec = "\<lparr>tok_id = VInt 1, userType = ''hospital''\<rparr>"]
      b demo_tokens demo_owned_rows
    by simp
  have m: "put_medicine demo_env demo_engine demo_store (demo_owned ''Bearer tok-p1'' ''medicine_id'' 1 [])
       = (failure 500 ''Server error'', demo_store)"
    using empty_patch_server_error [where req = "demo_owned ''Bearer tok-p1'' ''medicine_id'' 1 []"
        and e = demo_env and eng = demo_engine and st = demo_store and t = "''tok-p1''"
        and dec = "\<lparr>tok_id = VInt 1, userType = ''pharmacy''\<rparr>"]
      b demo_tokens demo_owned_rows
    by simp
  show ?thesis using b d m demo_owned_rows by simp
qed

section \<open>Pattern matching: properties\<close>

lemma like_match_percent_only: "like_match ''%'' s"
  by (induction s) auto

lemma like_match_percent:
  "like_match (CHR ''%'' # ps) s \<longleftrightarrow> (\<exists>a b. s = a @ b \<and> like_match ps b)"
proof (induction s)
  case Nil
  then show ?case by simp
next
  case (Cons c s)
  have "like_match (CHR ''%'' # ps) (c # s)
      \<longleftrightarrow> like_match ps (c # s) \<or> like_match (CHR ''%'' # ps) s"
    by simp
  also have "\<dots> \<longleftrightarrow> like_match ps (c # s) \<or> (\<exists>a b. s = a @ b \<and> like_match ps b)"
    using Cons.IH by simp
  also have "\<dots> \<longleftrightarrow> (\<exists>a b. c # s = a @ b \<and> like_match ps b)"
    by (auto simp: Cons_eq_append_conv)
  finally show ?case .
qed

lemma like_match_plain:
  "plain v \<Longrightarrow> like_match (v @ ps) s \<longleftrightarrow> (\<exists>s'. s = v @ s' \<and> like_match ps s')"
proof (induction v arbitrary: s)
  case Nil
  then show ?case by simp
next
  case (Cons x v)
  then have x: "x \<noteq> CHR ''%''" "x \<noteq> CHR ''_''" "x \<noteq> CHR 0x5C" and v: "plain v"
    by (auto simp: plain_def)
  show ?case
    using x Cons.IH [OF v] by (cases s) auto
qed

lemma lower_char_range:
  "lower_char c = c \<or> lower_char c \<in> set ''abcdefghijklmnopqrstuvwxyz''"
proof (cases "map_of (zip ''ABCDEFGHIJKLMNOPQRSTUVWXYZ'' ''abcdefghijklmnopqrstuvwxyz'') c")
  case None
  show ?thesis unfolding lower_char_def None by simp
next
  case (Some l)
  then have l: "l \<in> set ''abcdefghijklmnopqrstuvwxyz''"
    by (meson map_of_SomeD set_zip_rightD)
  show ?thesis unfolding lower_char_def Some using l by simp
qed

lemma lower_char_special:
  "lower_char c = CHR ''%'' \<longleftrightarrow> c = CHR ''%''"
  "lower_char c = CHR ''_'' \<longleftrightarrow> c = CHR ''_''"
  "lower_char c = CHR 0x5C \<longleftrightarrow> c = CHR 0x5C"
proof -
  have f: "lower_char CHR ''%'' = CHR ''%''" "lower_char CHR ''_'' = CHR ''_''"
    "lower_char CHR 0x5C = CHR 0x5C"
    by (simp_all add: lower_char_def)
  have n: "CHR ''%'' \<notin> set ''abcdefghijklmnopqrstuvwxyz''"
    "CHR ''_'' \<notin> set ''abcdefghijklmnopqrstuvwxyz''"
    "CHR 0x5C \<notin> set ''abcdefghijklmnopqrstuvwxyz''"
    by simp_all
  show "lower_char c = CHR ''%'' \<longleftrightarrow> c = CHR ''%''"
    using lower_char_range [of c] f(1) n(1) by metis
  show "lower_char c = CHR ''_'' \<longleftrightarrow> c = CHR ''_''"
    using lower_char_range [of c] f(2) n(2) by metis
  show "lower_char c = CHR 0x5C \<longleftrightarrow> c = CHR 0x5C"
    using lower_char_range [of c] f(3) n(3) by metis
qed

lemma lower_char_fixed:
  "lower_char CHR ''%'' = CHR ''%''" "lower_char CHR ''_'' = CHR ''_''"
  "lower_char CHR 0x5C = CHR 0x5C"
  by (simp_all add: lower_char_def)

lemma plain_lower: "plain v \<Longrightarrow> plain (lower v)"
proof -
  have "c \<in> set (lower v) \<longleftrightarrow> c \<in> set v"
    if "c = CHR ''%'' \<or> c = CHR ''_'' \<or> c = CHR 0x5C" for c
  proof
    assume "c \<in> set (lower v)"
    then obtain x where "x \<in> set v" and "lower_char x = c"
      by (auto simp: lower_def)
    with that show "c \<in> set v"
      by (auto simp: lower_char_special lower_char_fixed)
  next
    assume "c \<in> set v"
    moreover have "lower_char c = c"
      using that by (auto simp: lower_char_fixed)
    ultimately show "c \<in> set (lower v)"
      by (force simp: lower_def)
  qed
  then show "plain v \<Longrightarrow> plain (lower v)"
    by (simp add: plain_def)
qed

lemma lower_pattern: "lower (''%'' @ v @ ''%'') = CHR ''%'' # lower v @ ''%''"
  by (simp add: lower_def lower_char_def)

lemma ilike_substring:
  assumes "plain v"
  shows "ilike s (''%'' @ v @ ''%'') \<longleftrightarrow> sublist (lower v) (lower s)"
proof -
  have "ilike s (''%'' @ v @ ''%'')
      \<longleftrightarrow> (\<exists>a b. lower s = a @ b \<and> like_match (lower v @ ''%'') b)"
    by (simp only: ilike_def lower_pattern like_match_percent)
  also have "\<dots> \<longleftrightarrow> (\<exists>a b. lower s = a @ b \<and> (\<exists>s'. b = lower v @ s'))"
    using like_match_plain [OF plain_lower [OF assms], of "''%''"]
    by (simp add: like_match_percent_only del: like_match.simps)
  also have "\<dots> \<longleftrightarrow> sublist (lower v) (lower s)"
    by (auto simp: sublist_def)
  finally show ?thesis .
qed

lemma ilike_substring_Cons:
  "plain v \<Longrightarrow> ilike s (CHR ''%'' # v @ ''%'') \<longleftrightarrow> sublist (lower v) (lower s)"
  using ilike_substring [of v s] by simp

lemma filter_holds_plain:
  "plain v \<Longrightarrow> v \<noteq> [] \<Longrightarrow> filter_holds (Some v) x = ci_substring v x"
  by (cases x) (simp_all add: filter_holds_def ci_substring_def sql_ilike_def ilike_substring_Cons)

section \<open>Search: properties\<close>

lemma js_index_Cons:
  "js_index (x # xs) n = (case n of 0 \<Rightarrow> Some x | Suc k \<Rightarrow> js_index xs k)"
  by (cases n) simp_all

lemma set_select_join:
  "set (select_join a l b r fk fixed cs ps oc)
     = {(x, y). x \<in> set (rows l) \<and> y \<in> set (rows r) \<and> sql_eq (cell x fk) (cell y fk)
          \<and> fixed x y \<and> list_all (eval_cond (\<lambda>n. if n = a then x else y) ps) cs}"
  by (auto simp: select_join_def)

lemma sorted_select_join:
  "sorted (map (\<lambda>(x, y). order_key (cell x oc)) (select_join a l b r fk fixed cs ps oc))"
  by (simp add: select_join_def sorted_sort_key)

lemma cell_select_list:
  "c \<noteq> nm \<Longrightarrow> c \<noteq> ''address'' \<Longrightarrow> c \<noteq> ''city'' \<Longrightarrow> c \<noteq> ph
   \<Longrightarrow> cell (select_list nm ph (x, y)) c = cell x c"
  by (simp add: select_list_def cell_def)

lemma sorted_select_list:
  assumes "oc \<noteq> nm" "oc \<noteq> ''address''" "oc \<noteq> ''city''" "oc \<noteq> ph"
  shows "sorted (map order_key (map (\<lambda>r. cell r oc)
           (map (select_list nm ph) (select_join a l b r fk fixed cs ps oc))))"
proof -
  have "map order_key (map (\<lambda>r. cell r oc)
           (map (select_list nm ph) (select_join a l b r fk fixed cs ps oc)))
      = map (\<lambda>(x, y). order_key (cell x oc)) (select_join a l b r fk fixed cs ps oc)"
    using assms by (auto simp: cell_select_list)
  then show ?thesis by (simp only: sorted_select_join)
qed

lemma searchDoctors_query_holds:
  assumes "searchDoctors_query req = (cs, ps, n)"
  shows "list_all (eval_cond (\<lambda>a. if a = ''d'' then d else h) ps) cs
     \<longleftrightarrow> filter_holds (query req ''specialization'') (cell d ''specialization'')
       \<and> filter_holds (query req ''city'') (cell h ''city'')
       \<and> filter_holds (query req ''hospital_name'') (cell h ''hospital_name'')"
  using assms
  by (auto simp: searchDoctors_query_def when_present_def and_ilike_def filter_holds_def
      Let_def js_index_Cons split: option.splits if_splits)

lemma searchMedicines_query_holds:
  assumes "searchMedicines_query req = (cs, ps, n)"
  shows "list_all (eval_cond (\<lambda>a. if a = ''m'' then m else p) ps) cs
     \<longleftrightarrow> (filter_holds (query req ''medicine_name'') (cell m ''medicine_name'')
          \<or> filter_holds (query req ''medicine_name'') (cell m ''generic_name''))
       \<and> filter_holds (query req ''city'') (cell p ''city'')
       \<and> filter_holds (query req ''category'') (cell m ''category'')"
  using assms
  by (auto simp: searchMedicines_query_def when_present_def and_ilike_def and_ilike2_def
      filter_holds_def Let_def js_index_Cons split: option.splits if_splits)

lemma searchDoctors_rows:
  "set (result_rows (searchDoctors st req))
     = {select_list ''hospital_name'' ''hospital_phone'' (d, h) | d h.
          d \<in> set (rows (doctors st)) \<and> h \<in> set (rows (hospitals st))
          \<and> sql_eq (cell d ''hospital_id'') (cell h ''hospital_id'')
          \<and> cell d ''is_available'' = VBool True \<and> cell h ''is_active'' = VBool True
          \<and> filter_holds (query req ''specialization'') (cell d ''specialization'')
          \<and> filter_holds (query req ''city'') (cell h ''city'')
          \<and> filter_holds (query req ''hospital_name'') (cell h ''hospital_name'')}"
proof -
  obtain cs ps n where q: "searchDoctors_query req = (cs, ps, n)"
    by (cases "searchDoctors_query req") auto
  have "result_rows (searchDoctors st req)
      = map (select_list ''hospital_name'' ''hospital_phone'')
          (select_join ''d'' (doctors st) ''h'' (hospitals st) ''hospital_id''
             (\<lambda>d h. cell d ''is_available'' = VBool True \<and> cell h ''is_active'' = VBool True)
             cs ps ''full_name'')"
    by (simp add: searchDoctors_def q result_rows_def rows_response_def)
  then show ?thesis
    by (auto simp: set_select_join searchDoctors_query_holds [OF q])
qed

lemma searchDoctors_sorted:
  "sorted (map order_key (result_column ''full_name'' (searchDoctors st req)))"
proof -
  obtain cs ps n where q: "searchDoctors_query req = (cs, ps, n)"
    by (cases "searchDoctors_query req") auto
  have "result_column ''full_name'' (searchDoctors st req)
      = map (\<lambda>r. cell r ''full_name'') (map (select_list ''hospital_name'' ''hospital_phone'')
          (select_join ''d'' (doctors st) ''h'' (hospitals st) ''hospital_id''
             (\<lambda>d h. cell d ''is_available'' = VBool True \<and> cell h ''is_active'' = VBool True)
             cs ps ''full_name''))"
    by (simp add: searchDoctors_def q result_rows_def result_column_def rows_response_def)
  moreover have "sorted (map order_key (map (\<lambda>r. cell r ''full_name'')
      (map (select_list ''hospital_name'' ''hospital_phone'')
          (select_join ''d'' (doctors st) ''h'' (hospitals st) ''hospital_id''
             (\<lambda>d h. cell d ''is_available'' = VBool True \<and> cell h ''is_active'' = VBool True)
             cs ps ''full_name''))))"
    by (rule sorted_select_list) simp_all
  ultimately show ?thesis by (simp only:)
qed

lemma searchDoctors_envelope:
  "searchDoctors st req = rows_response (result_rows (searchDoctors st req))"
  by (simp add: searchDoctors_def result_rows_def rows_response_def split: prod.splits)

lemma searchMedicines_rows:
  "set (result_rows (searchMedicines st req))
     = {select_list ''pharmacy_name'' ''pharmacy_phone'' (m, p) | m p.
          m \<in> set (rows (medicines st)) \<and> p \<in> set (rows (pharmacies st))
          \<and> sql_eq (cell m ''pharmacy_id'') (cell p ''pharmacy_id'')
          \<and> cell m ''is_available'' = VBool True \<and> positive (cell m ''stock_quantity'')
          \<and> cell p ''is_active'' = VBool True
          \<and> (filter_holds (query req ''medicine_name'') (cell m ''medicine_name'')
               \<or> filter_holds (query req ''medicine_name'') (cell m ''generic_name''))
          \<and> filter_holds (query req ''city'') (cell p ''city'')
          \<and> filter_holds (query req ''category'') (cell m ''category'')}"
proof -
  obtain cs ps n where q: "searchMedicines_query req = (cs, ps, n)"
    by (cases "searchMedicines_query req") auto
  have "result_rows (searchMedicines st req)
      = map (select_list ''pharmacy_name'' ''pharmacy_phone'')
          (select_join ''m'' (medicines st) ''p'' (pharmacies st) ''pharmacy_id''
             (\<lambda>m p. cell m ''is_available'' = VBool True \<and> positive (cell m ''stock_quantity'')
                \<and> cell p ''is_active'' = VBool True)
             cs ps ''medicine_name'')"
    by (simp add: searchMedicines_def q result_rows_def rows_response_def)
  then show ?thesis
    by (auto simp: set_select_join searchMedicines_query_holds [OF q])
qed

lemma searchMedicines_sorted:
  "sorted (map order_key (result_column ''medicine_name'' (searchMedicines st req)))"
proof -
  obtain cs ps n where q: "searchMedicines_query req = (cs, ps, n)"
    by (cases "searchMedicines_query req") auto
  have "result_column ''medicine_name'' (searchMedicines st req)
      = map (\<lambda>r. cell r ''medicine_name'') (map (select_list ''pharmacy_name'' ''pharmacy_phone'')
          (select_join ''m'' (medicines st) ''p'' (pharmacies st) ''pharmacy_id''
             (\<lambda>m p. cell m ''is_available'' = VBool True \<and> positive (cell m ''stock_quantity'')
                \<and> cell p ''is_active'' = VBool True)
             cs ps ''medicine_name''))"
    by (simp add: searchMedicines_def q result_rows_def result_column_def rows_response_def)
  moreover have "sorted (map order_key (map (\<lambda>r. cell r ''medicine_name'')
      (map (select_list ''pharmacy_name'' ''pharmacy_phone'')
          (select_join ''m'' (medicines st) ''p'' (pharmacies st) ''pharmacy_id''
             (\<lambda>m p. cell m ''is_available'' = VBool True \<and> positive (cell m ''stock_quantity'')
                \<and> cell p ''is_active'' = VBool True)
             cs ps ''medicine_name''))))"
    by (rule sorted_select_list) simp_all
  ultimately show ?thesis by (simp only:)
qed

lemma searchMedicines_envelope:
  "searchMedicines st req = rows_response (result_rows (searchMedicines st req))"
  by (simp add: searchMedicines_def result_rows_def rows_response_def split: prod.splits)

lemma filter_holds_absent: "\<not> js_truthy f \<Longrightarrow> filter_holds f x"
  by (auto simp: js_truthy_def filter_holds_def split: option.splits)

lemma filter_holds_present:
  "v \<noteq> [] \<Longrightarrow> filter_holds (Some v) x = sql_ilike x (VText (''%'' @ v @ ''%''))"
  by (simp add: filter_holds_def)

lemma filter_holds_extends:
  "js_truthy f \<longrightarrow> f' = f \<Longrightarrow> filter_holds f' x \<Longrightarrow> filter_holds f x"
  by (cases "js_truthy f") (auto simp: filter_holds_absent)

text \<open>
  C5 (amended). \<^verbatim>\<open>searchDoctors\<close> returns exactly the doctors joined with their owning
  hospital for which \<^verbatim>\<open>is_available\<close> and the hospital's \<^verbatim>\<open>is_active\<close> are true and for
  which every present filter holds as an \<^verbatim>\<open>ILIKE\<close> match of the pattern \<open>%value%\<close> on its
  column (specialization of the doctor, city and name of the hospital), the filters
  joined by \<^verbatim>\<open>AND\<close>, an absent filter imposing nothing; the rows are in ascending order
  of the doctor's full name, and the response is a success carrying the rows and their
  number, also when there are none. The match is a case-insensitive substring match
  whenever the value has none of the pattern characters \<open>%\<close>, \<open>_\<close> and backslash.
\<close>

theorem searchDoctors_exact:
  "set (result_rows (searchDoctors st req))
     = {select_list ''hospital_name'' ''hospital_phone'' (d, h) | d h.
          d \<in> set (rows (doctors st)) \<and> h \<in> set (rows (hospitals st))
          \<and> sql_eq (cell d ''hospital_id'') (cell h ''hospital_id'')
          \<and> cell d ''is_available'' = VBool True \<and> cell h ''is_active'' = VBool True
          \<and> filter_holds (query req ''specialization'') (cell d ''specialization'')
          \<and> filter_holds (query req ''city'') (cell h ''city'')
          \<and> filter_holds (query req ''hospital_name'') (cell h ''hospital_name'')}
   \<and> sorted (map order_key (result_column ''full_name'' (searchDoctors st req)))
   \<and> searchDoctors st req
       = \<lparr>status = 200, success = True, message = None,
          count = Some (length (result_rows (searchDoctors st req))),
          data = Some (DataRows (result_rows (searchDoctors st req)))\<rparr>
   \<and> (\<not> js_truthy f \<longrightarrow> filter_holds f x)
   \<and> (v \<noteq> [] \<longrightarrow> filter_holds (Some v) x = sql_ilike x (VText (''%'' @ v @ ''%'')))
   \<and> (v \<noteq> [] \<and> plain v \<longrightarrow> filter_holds (Some v) x = ci_substring v x)"
proof (intro conjI impI)
  show "sorted (map order_key (result_column ''full_name'' (searchDoctors st req)))"
    by (rule searchDoctors_sorted)
  show "searchDoctors st req
       = \<lparr>status = 200, success = True, message = None,
          count = Some (length (result_rows (searchDoctors st req))),
          data = Some (DataRows (result_rows (searchDoctors st req)))\<rparr>"
    using searchDoctors_envelope [of st req] by (simp only: rows_response_def)
  show "filter_holds f x" if "\<not> js_truthy f"
    using that by (rule filter_holds_absent)
  show "filter_holds (Some v) x = sql_ilike x (VText (''%'' @ v @ ''%''))" if "v \<noteq> []"
    using that by (rule filter_holds_present)
  show "filter_holds (Some v) x = ci_substring v x" if "v \<noteq> [] \<and> plain v"
    using that by (simp add: filter_holds_plain)
qed (rule searchDoctors_rows)

text \<open>
  C6 (amended). \<^verbatim>\<open>searchMedicines\<close> returns exactly the medicines joined with their
  pharmacy for which \<^verbatim>\<open>is_available\<close> is true, \<^verbatim>\<open>stock_quantity\<close> is positive and the
  pharmacy's \<^verbatim>\<open>is_active\<close> is true, where a present \<^verbatim>\<open>medicine_name\<close> filter holds when
  the pattern \<open>%value%\<close> matches (\<^verbatim>\<open>ILIKE\<close>) the medicine's name or its generic name,
  and that disjunction is joined by \<^verbatim>\<open>AND\<close> with the city and category filters; the
  rows are in ascending order of the medicine's name. The match is a case-insensitive
  substring match whenever the value has none of the pattern characters \<open>%\<close>, \<open>_\<close> and
  backslash.
\<close>

theorem searchMedicines_exact:
  "set (result_rows (searchMedicines st req))
     = {select_list ''pharmacy_name'' ''pharmacy_phone'' (m, p) | m p.
          m \<in> set (rows (medicines st)) \<and> p \<in> set (rows (pharmacies st))
          \<and> sql_eq (cell m ''pharmacy_id'') (cell p ''pharmacy_id'')
          \<and> cell m ''is_available'' = VBool True \<and> positive (cell m ''stock_quantity'')
          \<and> cell p ''is_active'' = VBool True
          \<and> (filter_holds (query req ''medicine_name'') (cell m ''medicine_name'')
               \<or> filter_holds (query req ''medicine_name'') (cell m ''generic_name''))
          \<and> filter_holds (query req ''city'') (cell p ''city'')
          \<and> filter_holds (query req ''category'') (cell m ''category'')}
   \<and> sorted (map order_key (result_column ''medicine_name'' (searchMedicines st req)))
   \<and> searchMedicines st req
       = \<lparr>status = 200, success = True, message = None,
          count = Some (length (result_rows (searchMedicines st req))),
          data = Some (DataRows (result_rows (searchMedicines st req)))\<rparr>
   \<and> (\<not> js_truthy f \<longrightarrow> filter_holds f x)
   \<and> (v \<noteq> [] \<longrightarrow> filter_holds (Some v) x = sql_ilike x (VText (''%'' @ v @ ''%'')))
   \<and> (v \<noteq> [] \<and> plain v \<longrightarrow> filter_holds (Some v) x = ci_substring v x)"
proof (intro conjI impI)
  show "sorted (map order_key (result_column ''medicine_name'' (searchMedicines st req)))"
    by (rule searchMedicines_sorted)
  show "searchMedicines st req
       = \<lparr>status = 200, success = True, message = None,
          count = Some (length (result_rows (searchMedicines st req))),
          data = Some (DataRows (result_rows (searchMedicines st req)))\<rparr>"
    using searchMedicines_envelope [of st req] by (simp only: rows_response_def)
  show "filter_holds f x" if "\<not> js_truthy f"
    using that by (rule filter_holds_absent)
  show "filter_holds (Some v) x = sql_ilike x (VText (''%'' @ v @ ''%''))" if "v \<noteq> []"
    using that by (rule filter_holds_present)
  show "filter_holds (Some v) x = ci_substring v x" if "v \<noteq> [] \<and> plain v"
    using that by (simp add: filter_holds_plain)
qed (rule searchMedicines_rows)

lemma extends_keys:
  "extends [a, b, c] req req' \<Longrightarrow>
     (js_truthy (query req a) \<longrightarrow> query req' a = query req a)
     \<and> (js_truthy (query req b) \<longrightarrow> query req' b = query req b)
     \<and> (js_truthy (query req c) \<longrightarrow> query req' c = query req c)"
  by (simp add: extends_def)

lemma searchDoctors_subset:
  assumes "extends [''specialization'', ''city'', ''hospital_name''] req req'"
  shows "set (result_rows (searchDoctors st req')) \<subseteq> set (result_rows (searchDoctors st req))"
proof
  fix r
  assume "r \<in> set (result_rows (searchDoctors st req'))"
  then obtain d h where r: "r = select_list ''hospital_name'' ''hospital_phone'' (d, h)"
    and e: "d \<in> set (rows (doctors st))" "h \<in> set (rows (hospitals st))"
      "sql_eq (cell d ''hospital_id'') (cell h ''hospital_id'')"
      "cell d ''is_available'' = VBool True" "cell h ''is_active'' = VBool True"
    and f: "filter_holds (query req' ''specialization'') (cell d ''specialization'')"
      "filter_holds (query req' ''city'') (cell h ''city'')"
      "filter_holds (query req' ''hospital_name'') (cell h ''hospital_name'')"
    unfolding searchDoctors_rows by blast
  note k = extends_keys [OF assms]
  have "filter_holds (query req ''specialization'') (cell d ''specialization'')"
    "filter_holds (query req ''city'') (cell h ''city'')"
    "filter_holds (query req ''hospital_name'') (cell h ''hospital_name'')"
    using k f by (blast intro: filter_holds_extends)+
  with r e show "r \<in> set (result_rows (searchDoctors st req))"
    unfolding searchDoctors_rows by blast
qed

lemma searchMedicines_subset:
  assumes "extends [''medicine_name'', ''city'', ''category''] req req'"
  shows "set (result_rows (searchMedicines st req')) \<subseteq> set (result_rows (searchMedicines st req))"
proof
  fix r
  assume "r \<in> set (result_rows (searchMedicines st req'))"
  then obtain m p where r: "r = select_list ''pharmacy_name'' ''pharmacy_phone'' (m, p)"
    and e: "m \<in> set (rows (medicines st))" "p \<in> set (rows (pharmacies st))"
      "sql_eq (cell m ''pharmacy_id'') (cell p ''pharmacy_id'')"
      "cell m ''is_available'' = VBool True" "positive (cell m ''stock_quantity'')"
      "cell p ''is_active'' = VBool True"
    and f: "filter_holds (query req' ''medicine_name'') (cell m ''medicine_name'')
        \<or> filter_holds (query req' ''medicine_name'') (cell m ''generic_name'')"
      "filter_holds (query req' ''city'') (cell p ''city'')"
      "filter_holds (query req' ''category'') (cell m ''category'')"
    unfolding searchMedicines_rows by blast
  note k = extends_keys [OF assms]
  have "filter_holds (query req ''medicine_name'') (cell m ''medicine_name'')
        \<or> filter_holds (query req ''medicine_name'') (cell m ''generic_name'')"
    "filter_holds (query req ''city'') (cell p ''city'')"
    "filter_holds (query req ''category'') (cell m ''category'')"
    using k f by (blast intro: filter_holds_extends)+
  with r e show "r \<in> set (result_rows (searchMedicines st req))"
    unfolding searchMedicines_rows by blast
qed

lemma searchDoctors_unmatched:
  assumes "(\<forall>d\<in>set (rows (doctors st)).
        \<not> filter_holds (query req ''specialization'') (cell d ''specialization''))
      \<or> (\<forall>h\<in>set (rows (hospitals st)). \<not> filter_holds (query req ''city'') (cell h ''city''))
      \<or> (\<forall>h\<in>set (rows (hospitals st)).
        \<not> filter_holds (query req ''hospital_name'') (cell h ''hospital_name''))"
  shows "searchDoctors st req = rows_response []"
proof -
  have "set (result_rows (searchDoctors st req)) = {}"
    unfolding searchDoctors_rows using assms by blast
  then have "result_rows (searchDoctors st req) = []"
    by simp
  with searchDoctors_envelope [of st req] show ?thesis
    by (simp only:)
qed

lemma searchMedicines_unmatched:
  assumes "(\<forall>m\<in>set (rows (medicines st)).
        \<not> filter_holds (query req ''medicine_name'') (cell m ''medicine_name'')
        \<and> \<not> filter_holds (query req ''medicine_name'') (cell m ''generic_name''))
      \<or> (\<forall>p\<in>set (rows (pharmacies st)). \<not> filter_holds (query req ''city'') (cell p ''city''))
      \<or> (\<forall>m\<in>set (rows (medicines st)).
        \<not> filter_holds (query req ''category'') (cell m ''category''))"
  shows "searchMedicines st req = rows_response []"
proof -
  have "set (result_rows (searchMedicines st req)) = {}"
    unfolding searchMedicines_rows using assms by blast
  then have "result_rows (searchMedicines st req) = []"
    by simp
  with searchMedicines_envelope [of st req] show ?thesis
    by (simp only:)
qed

text \<open>
  C7 (amended). For both searches over a fixed store: without filters the result is all
  eligible rows; the result is always in ascending order of the name; a set of filters
  that extends another one returns a subset of its result (not always a strict one);
  and when some filter holds of no row the response is a success with the empty list.
\<close>

theorem search_narrows:
  "(\<not> js_truthy (query req ''specialization'') \<and> \<not> js_truthy (query req ''city'')
      \<and> \<not> js_truthy (query req ''hospital_name'')
    \<longrightarrow> set (result_rows (searchDoctors st req))
        = {select_list ''hospital_name'' ''hospital_phone'' (d, h) | d h.
             d \<in> set (rows (doctors st)) \<and> h \<in> set (rows (hospitals st))
             \<and> sql_eq (cell d ''hospital_id'') (cell h ''hospital_id'')
             \<and> cell d ''is_available'' = VBool True \<and> cell h ''is_active'' = VBool True})
   \<and> (\<not> js_truthy (query req ''medicine_name'') \<and> \<not> js_truthy (query req ''city'')
      \<and> \<not> js_truthy (query req ''category'')
    \<longrightarrow> set (result_rows (searchMedicines st req))
        = {select_list ''pharmacy_name'' ''pharmacy_phone'' (m, p) | m p.
             m \<in> set (rows (medicines st)) \<and> p \<in> set (rows (pharmacies st))
             \<and> sql_eq (cell m ''pharmacy_id'') (cell p ''pharmacy_id'')
             \<and> cell m ''is_available'' = VBool True \<and> positive (cell m ''stock_quantity'')
             \<and> cell p ''is_active'' = VBool True})
   \<and> sorted (map order_key (result_column ''full_name'' (searchDoctors st req)))
   \<and> sorted (map order_key (result_column ''medicine_name'' (searchMedicines st req)))
   \<and> (extends [''specialization'', ''city'', ''hospital_name''] req req'
    \<longrightarrow> set (result_rows (searchDoctors st req')) \<subseteq> set (result_rows (searchDoctors st req)))
   \<and> (extends [''medicine_name'', ''city'', ''category''] req req'
    \<longrightarrow> set (result_rows (searchMedicines st req')) \<subseteq> set (result_rows (searchMedicines st req)))
   \<and> ((\<forall>d\<in>set (rows (doctors st)).
          \<not> filter_holds (query req ''specialization'') (cell d ''specialization''))
        \<or> (\<forall>h\<in>set (rows (hospitals st)). \<not> filter_holds (query req ''city'') (cell h ''city''))
        \<or> (\<forall>h\<in>set (rows (hospitals st)).
          \<not> filter_holds (query req ''hospital_name'') (cell h ''hospital_name''))
    \<longrightarrow> searchDoctors st req
        = \<lparr>status = 200, success = True, message = None, count = Some 0,
           data = Some (DataRows [])\<rparr>)
   \<and> ((\<forall>m\<in>set (rows (medicines st)).
          \<not> filter_holds (query req ''medicine_name'') (cell m ''medicine_name'')
          \<and> \<not> filter_holds (query req ''medicine_name'') (cell m ''generic_name''))
        \<or> (\<forall>p\<in>set (rows (pharmacies st)). \<not> filter_holds (query req ''city'') (cell p ''city''))
        \<or> (\<forall>m\<in>set (rows (medicines st)).
          \<not> filter_holds (query req ''category'') (cell m ''category''))
    \<longrightarrow> searchMedicines st req
        = \<lparr>status = 200, success = True, message = None, count = Some 0,
           data = Some (DataRows [])\<rparr>)"
proof (intro conjI impI)
  assume "\<not> js_truthy (query req ''specialization'') \<and> \<not> js_truthy (query req ''city'')
      \<and> \<not> js_truthy (query req ''hospital_name'')"
  then show "set (result_rows (searchDoctors st req))
        = {select_list ''hospital_name'' ''hospital_phone'' (d, h) | d h.
             d \<in> set (rows (doctors st)) \<and> h \<in> set (rows (hospitals st))
             \<and> sql_eq (cell d ''hospital_id'') (cell h ''hospital_id'')
             \<and> cell d ''is_available'' = VBool True \<and> cell h ''is_active'' = VBool True}"
    by (simp add: searchDoctors_rows filter_holds_absent)
next
  assume "\<not> js_truthy (query req ''medicine_name'') \<and> \<not> js_truthy (query req ''city'')
      \<and> \<not> js_truthy (query req ''category'')"
  then show "set (result_rows (searchMedicines st req))
        = {select_list ''pharmacy_name'' ''pharmacy_phone'' (m, p) | m p.
             m \<in> set (rows (medicines st)) \<and> p \<in> set (rows (pharmacies st))
             \<and> sql_eq (cell m ''pharmacy_id'') (cell p ''pharmacy_id'')
             \<and> cell m ''is_available'' = VBool True \<and> positive (cell m ''stock_quantity'')
             \<and> cell p ''is_active'' = VBool True}"
    by (simp add: searchMedicines_rows filter_holds_absent)
next
  show "sorted (map order_key (result_column ''full_name'' (searchDoctors st req)))"
    by (rule searchDoctors_sorted)
  show "sorted (map order_key (result_column ''medicine_name'' (searchMedicines st req)))"
    by (rule searchMedicines_sorted)
next
  assume "extends [''specialization'', ''city'', ''hospital_name''] req req'"
  then show "set (result_rows (searchDoctors st req')) \<subseteq> set (result_rows (searchDoctors st req))"
    by (rule searchDoctors_subset)
next
  assume "extends [''medicine_name'', ''city'', ''category''] req req'"
  then show "set (result_rows (searchMedicines st req')) \<subseteq> set (result_rows (searchMedicines st req))"
    by (rule searchMedicines_subset)
next
  assume "(\<forall>d\<in>set (rows (doctors st)).
          \<not> filter_holds (query req ''specialization'') (cell d ''specialization''))
        \<or> (\<forall>h\<in>set (rows (hospitals st)). \<not> filter_holds (query req ''city'') (cell h ''city''))
        \<or> (\<forall>h\<in>set (rows (hospitals st)).
          \<not> filter_holds (query req ''hospital_name'') (cell h ''hospital_name''))"
  then have "searchDoctors st req = rows_response []"
    by (rule searchDoctors_unmatched)
  then show "searchDoctors st req
        = \<lparr>status = 200, success = True, message = None, count = Some 0,
           data = Some (DataRows [])\<rparr>"
    by (simp add: rows_response_def)
next
  assume "(\<forall>m\<in>set (rows (medicines st)).
          \<not> filter_holds (query req ''medicine_name'') (cell m ''medicine_name'')
          \<and> \<not> filter_holds (query req ''medicine_name'') (cell m ''generic_name''))
        \<or> (\<forall>p\<in>set (rows (pharmacies st)). \<not> filter_holds (query req ''city'') (cell p ''city''))
        \<or> (\<forall>m\<in>set (rows (medicines st)).
          \<not> filter_holds (query req ''category'') (cell m ''category''))"
  then have "searchMedicines st req = rows_response []"
    by (rule searchMedicines_unmatched)
  then show "searchMedicines st req
        = \<lparr>status = 200, success = True, message = None, count = Some 0,
           data = Some (DataRows [])\<rparr>"
    by (simp add: rows_response_def)
qed

section \<open>Search: examples\<close>

lemmas search_eval =
  searchDoctors_def searchDoctors_query_def searchMedicines_def searchMedicines_query_def
  when_present_def and_ilike_def and_ilike2_def select_join_def select_list_def rows_response_def
  result_rows_def result_column_def demo_get_def demo_request_def demo_store_def
  demo_doctors_def demo_hospitals_def demo_medicines_def demo_pharmacies_def
  cell_def sql_eq_def sql_ilike_def ilike_def lower_def lower_char_def order_key_def positive_def
  js_index_Cons Let_def

lemmas substring_eval =
  ci_substring_def lower_def lower_char_def sublist_Cons_right prefix_Cons

text \<open>
  The filter value \<open>car_io\<close> finds the cardiologist, although it is not a substring of
  \<open>Cardiology\<close>: \<open>_\<close> matches any character.
\<close>

theorem searchDoctors_exact_counterexample:
  "result_column ''specialization''
      (searchDoctors demo_store (demo_get [(''specialization'', ''car_io'')]))
     = [VText ''Cardiology'']
   \<and> \<not> ci_substring ''car_io'' (VText ''Cardiology'')"
proof -
  have "result_column ''specialization''
      (searchDoctors demo_store (demo_get [(''specialization'', ''car_io'')]))
     = [VText ''Cardiology'']"
    by (simp add: search_eval)
  moreover have "\<not> ci_substring ''car_io'' (VText ''Cardiology'')"
    by (simp add: substring_eval)
  ultimately show ?thesis by (rule conjI)
qed

theorem searchDoctors_exact_witness:
  "''cardio'' \<noteq> [] \<and> plain ''cardio''
   \<and> ci_substring ''cardio'' (VText ''Cardiology'')
   \<and> filter_holds (Some ''cardio'') (VText ''Cardiology'')
   \<and> filter_holds (Some []) (VText ''Cardiology'')
   \<and> result_column ''full_name''
        (searchDoctors demo_store (demo_get [(''specialization'', ''cardio'')]))
       = [VText ''Dr. Rao'']
   \<and> status (searchDoctors demo_store (demo_get [(''specialization'', ''cardio'')])) = 200"
proof -
  let ?req = "demo_get [(''specialization'', ''cardio'')]"
  note t = searchDoctors_exact [where st = demo_store and req = ?req and v = "''cardio''"
      and x = "VText ''Cardiology''" and f = "Some []"]
  have p: "''cardio'' \<noteq> [] \<and> plain ''cardio''"
    by (simp add: plain_def)
  have c: "ci_substring ''cardio'' (VText ''Cardiology'')"
    by (simp add: substring_eval)
  from t have "''cardio'' \<noteq> [] \<and> plain ''cardio''
      \<longrightarrow> filter_holds (Some ''cardio'') (VText ''Cardiology'')
        = ci_substring ''cardio'' (VText ''Cardiology'')"
    by (elim conjE)
  with p c have h: "filter_holds (Some ''cardio'') (VText ''Cardiology'')"
    by blast
  have n: "\<not> js_truthy (Some [])"
    by (simp add: js_truthy_def)
  from t have "\<not> js_truthy (Some []) \<longrightarrow> filter_holds (Some []) (VText ''Cardiology'')"
    by (elim conjE)
  with n have a: "filter_holds (Some []) (VText ''Cardiology'')"
    by blast
  from t have e: "searchDoctors demo_store ?req
       = \<lparr>status = 200, success = True, message = None,
          count = Some (length (result_rows (searchDoctors demo_store ?req))),
          data = Some (DataRows (result_rows (searchDoctors demo_store ?req)))\<rparr>"
    by (elim conjE)
  have s: "status (searchDoctors demo_store ?req) = 200"
    by (subst e) simp
  have r: "result_column ''full_name'' (searchDoctors demo_store ?req) = [VText ''Dr. Rao'']"
    by (simp add: search_eval)
  show ?thesis using p c h a r s by blast
qed

text \<open>
  The filter value \<open>para%mol\<close> finds two medicines by their generic name, although it is
  a substring of neither name: \<open>%\<close> matches any sequence of characters.
\<close>

theorem searchMedicines_exact_counterexample:
  "result_column ''medicine_name''
      (searchMedicines demo_store (demo_get [(''medicine_name'', ''para%mol'')]))
     = [VText ''Calpol'', VText ''Crocin'']
   \<and> result_column ''generic_name''
      (searchMedicines demo_store (demo_get [(''medicine_name'', ''para%mol'')]))
     = [VText ''Paracetamol'', VText ''Paracetamol'']
   \<and> \<not> ci_substring ''para%mol'' (VText ''Calpol'')
   \<and> \<not> ci_substring ''para%mol'' (VText ''Crocin'')
   \<and> \<not> ci_substring ''para%mol'' (VText ''Paracetamol'')"
proof -
  have "result_column ''medicine_name''
      (searchMedicines demo_store (demo_get [(''medicine_name'', ''para%mol'')]))
     = [VText ''Calpol'', VText ''Crocin'']"
    by (simp add: search_eval)
  moreover have "result_column ''generic_name''
      (searchMedicines demo_store (demo_get [(''medicine_name'', ''para%mol'')]))
     = [VText ''Paracetamol'', VText ''Paracetamol'']"
    by (simp add: search_eval)
  moreover have "\<not> ci_substring ''para%mol'' (VText ''Calpol'')"
    "\<not> ci_substring ''para%mol'' (VText ''Crocin'')"
    "\<not> ci_substring ''para%mol'' (VText ''Paracetamol'')"
    by (simp_all add: substring_eval)
  ultimately show ?thesis by blast
qed

theorem searchMedicines_exact_witness:
  "''parac'' \<noteq> [] \<and> plain ''parac''
   \<and> ci_substring ''parac'' (VText ''Paracetamol'')
   \<and> filter_holds (Some ''parac'') (VText ''Paracetamol'')
   \<and> filter_holds None (VText ''Crocin'')
   \<and> result_column ''medicine_name''
        (searchMedicines demo_store (demo_get [(''medicine_name'', ''parac'')]))
       = [VText ''Calpol'', VText ''Crocin'']
   \<and> status (searchMedicines demo_store (demo_get [(''medicine_name'', ''parac'')])) = 200"
proof -
  let ?req = "demo_get [(''medicine_name'', ''parac'')]"
  note t = searchMedicines_exact [where st = demo_store and req = ?req and v = "''parac''"
      and x = "VText ''Paracetamol''" and f = None]
  have p: "''parac'' \<noteq> [] \<and> plain ''parac''"
    by (simp add: plain_def)
  have c: "ci_substring ''parac'' (VText ''Paracetamol'')"
    by (simp add: substring_eval)
  from t have "''parac'' \<noteq> [] \<and> plain ''parac''
      \<longrightarrow> filter_holds (Some ''parac'') (VText ''Paracetamol'')
        = ci_substring ''parac'' (VText ''Paracetamol'')"
    by (elim conjE)
  with p c have h: "filter_holds (Some ''parac'') (VText ''Paracetamol'')"
    by blast
  have a: "filter_holds None (VText ''Crocin'')"
    using searchMedicines_exact [where f = None and x = "VText ''Crocin''"]
    by (simp add: js_truthy_def)
  from t have e: "searchMedicines demo_store ?req
       = \<lparr>status = 200, success = True, message = None,
          count = Some (length (result_rows (searchMedicines demo_store ?req))),
          data = Some (DataRows (result_rows (searchMedicines demo_store ?req)))\<rparr>"
    by (elim conjE)
  have s: "status (searchMedicines demo_store ?req) = 200"
    by (subst e) simp
  have r: "result_column ''medicine_name'' (searchMedicines demo_store ?req)
      = [VText ''Calpol'', VText ''Crocin'']"
    by (simp add: search_eval)
  show ?thesis using p c h a r s by blast
qed

text \<open>
  Adding the filter \<open>specialization = cardi\<close> to the search without filters returns the
  same two doctors: the result is not a strict subset.
\<close>

theorem search_narrows_counterexample:
  "extends [''specialization'', ''city'', ''hospital_name'']
      (demo_get []) (demo_get [(''specialization'', ''cardi'')])
   \<and> \<not> js_truthy (query (demo_get []) ''specialization'')
   \<and> js_truthy (query (demo_get [(''specialization'', ''cardi'')]) ''specialization'')
   \<and> \<not> (set (result_rows (searchDoctors demo_store (demo_get [(''specialization'', ''cardi'')])))
          \<subset> set (result_rows (searchDoctors demo_store (demo_get []))))"
proof -
  have "result_rows (searchDoctors demo_store (demo_get [(''specialization'', ''cardi'')]))
      = result_rows (searchDoctors demo_store (demo_get []))"
    by (simp add: search_eval)
  then have "\<not> (set (result_rows (searchDoctors demo_store (demo_get [(''specialization'', ''cardi'')])))
          \<subset> set (result_rows (searchDoctors demo_store (demo_get []))))"
    by (simp only: psubset_eq simp_thms)
  moreover have "extends [''specialization'', ''city'', ''hospital_name'']
      (demo_get []) (demo_get [(''specialization'', ''cardi'')])"
    "\<not> js_truthy (query (demo_get []) ''specialization'')"
    "js_truthy (query (demo_get [(''specialization'', ''cardi'')]) ''specialization'')"
    by (simp_all add: extends_def js_truthy_def demo_get_def demo_request_def)
  ultimately show ?thesis by blast
qed

theorem search_narrows_witness:
  "extends [''specialization'', ''city'', ''hospital_name'']
      (demo_get []) (demo_get [(''specialization'', ''cardiology'')])
   \<and> set (result_rows (searchDoctors demo_store (demo_get [(''specialization'', ''cardiology'')])))
       \<subseteq> set (result_rows (searchDoctors demo_store (demo_get [])))
   \<and> result_column ''full_name'' (searchDoctors demo_store (demo_get []))
       = [VText ''Dr. Bose'', VText ''Dr. Rao'']
   \<and> searchDoctors demo_store (demo_get [(''specialization'', ''neuro'')])
       = \<lparr>status = 200, success = True, message = None, count = Some 0,
          data = Some (DataRows [])\<rparr>
   \<and> extends [''medicine_name'', ''city'', ''category'']
      (demo_get []) (demo_get [(''category'', ''analgesic'')])
   \<and> set (result_rows (searchMedicines demo_store (demo_get [(''category'', ''analgesic'')])))
       \<subseteq> set (result_rows (searchMedicines demo_store (demo_get [])))
   \<and> searchMedicines demo_store (demo_get [(''city'', ''delhi'')])
       = \<lparr>status = 200, success = True, message = None, count = Some 0,
          data = Some (DataRows [])\<rparr>"
proof -
  have x: "extends [''specialization'', ''city'', ''hospital_name'']
      (demo_get []) (demo_get [(''specialization'', ''cardiology'')])"
    "extends [''medicine_name'', ''city'', ''category'']
      (demo_get []) (demo_get [(''category'', ''analgesic'')])"
    by (simp_all add: extends_def js_truthy_def demo_get_def demo_request_def)
  note t = search_narrows [where st = demo_store and req = "demo_get []"]
  have a: "set (result_rows (searchDoctors demo_store (demo_get [(''specialization'', ''cardiology'')])))
       \<subseteq> set (result_rows (searchDoctors demo_store (demo_get [])))"
    using t [where req' = "demo_get [(''specialization'', ''cardiology'')]"] x(1) by blast
  have b: "set (result_rows (searchMedicines demo_store (demo_get [(''category'', ''analgesic'')])))
       \<subseteq> set (result_rows (searchMedicines demo_store (demo_get [])))"
    using t [where req' = "demo_get [(''category'', ''analgesic'')]"] x(2) by blast
  have n: "\<forall>d\<in>set (rows (doctors demo_store)).
      \<not> filter_holds (query (demo_get [(''specialization'', ''neuro'')]) ''specialization'')
          (cell d ''specialization'')"
    by (simp add: filter_holds_def search_eval)
  have c: "searchDoctors demo_store (demo_get [(''specialization'', ''neuro'')])
       = \<lparr>status = 200, success = True, message = None, count = Some 0,
          data = Some (DataRows [])\<rparr>"
    using search_narrows [where st = demo_store
        and req = "demo_get [(''specialization'', ''neuro'')]"] n
    by blast
  have m: "\<forall>p\<in>set (rows (pharmacies demo_store)).
      \<not> filter_holds (query (demo_get [(''city'', ''delhi'')]) ''city'') (cell p ''city'')"
    by (simp add: filter_holds_def search_eval)
  have d: "searchMedicines demo_store (demo_get [(''city'', ''delhi'')])
       = \<lparr>status = 200, success = True, message = None, count = Some 0,
          data = Some (DataRows [])\<rparr>"
    using search_narrows [where st = demo_store and req = "demo_get [(''city'', ''delhi'')]"] m
    by blast
  have r: "result_column ''full_name'' (searchDoctors demo_store (demo_get []))
       = [VText ''Dr. Bose'', VText ''Dr. Rao'']"
    by (simp add: search_eval)
  show ?thesis using x a b c d r by blast
qed

end
